theory Spec2Isabelle
  imports Main "HOL-Library.Sublist"
begin

section \<open>Python strings\<close>

text \<open>
  A Python \<open>str\<close> is a sequence of Unicode code points; a code point is a natural
  number, so that \<open>len\<close> is \<open>length\<close> and text beyond ASCII can be written down.
  \<open>str\<close> turns an ASCII literal of the source into such a sequence.
\<close>

type_synonym pystr = "nat list"

definition str :: "string \<Rightarrow> pystr" where
  "str s = map of_char s"

text \<open>
  \<open>str.isspace\<close> of one code point: the fixed list of the Unicode database
  (the same predicate decides \<open>\s\<close> in a \<open>re\<close> pattern over \<open>str\<close>).
\<close>

definition isspace :: "nat \<Rightarrow> bool" where
  "isspace c \<longleftrightarrow>
     (9 \<le> c \<and> c \<le> 13) \<or> (28 \<le> c \<and> c \<le> 32) \<or> c = 133 \<or> c = 160 \<or> c = 5760 \<or>
     (8192 \<le> c \<and> c \<le> 8202) \<or> c = 8232 \<or> c = 8233 \<or> c = 8239 \<or> c = 8287 \<or>
     c = 12288"

definition lstrip :: "pystr \<Rightarrow> pystr" where
  "lstrip s = dropWhile isspace s"

definition rstrip :: "pystr \<Rightarrow> pystr" where
  "rstrip s = rev (dropWhile isspace (rev s))"

definition strip :: "pystr \<Rightarrow> pystr" where
  "strip s = lstrip (rstrip s)"

definition startswith :: "pystr \<Rightarrow> pystr \<Rightarrow> bool" where
  "startswith s p \<longleftrightarrow> take (length p) s = p"

text \<open>\<open>p in s\<close> for two strings: \<open>p\<close> occurs in \<open>s\<close> as a substring.\<close>

fun contains :: "pystr \<Rightarrow> pystr \<Rightarrow> bool" where
  "contains p [] = (p = [])"
| "contains p (c # s) = (startswith (c # s) p \<or> contains p s)"

text \<open>\<open>str(n)\<close> for an integer: decimal digits, a minus sign when negative.\<close>

fun str_nat :: "nat \<Rightarrow> pystr" where
  "str_nat n = (if n < 10 then [48 + n] else str_nat (n div 10) @ [48 + n mod 10])"

declare str_nat.simps [simp del]

definition str_int :: "int \<Rightarrow> pystr" where
  "str_int i = (if i < 0 then 45 # str_nat (nat (- i)) else str_nat (nat i))"

text \<open>
  \<open>f.readlines()\<close> of a text file opened with universal newlines: the text is cut
  after every \<open>\n\<close> (code point 10), each line keeping its terminator; a last line
  without terminator is kept as it is.
\<close>

fun readlines_acc :: "pystr \<Rightarrow> pystr \<Rightarrow> pystr list" where
  "readlines_acc cur [] = (if cur = [] then [] else [cur])"
| "readlines_acc cur (c # s) =
     (if c = 10 then (cur @ [c]) # readlines_acc [] s else readlines_acc (cur @ [c]) s)"

definition readlines :: "pystr \<Rightarrow> pystr list" where
  "readlines text = readlines_acc [] text"


section \<open>The workspace as the service sees it\<close>

text \<open>
  What the service reads from its surroundings is a parameter of the model:
  \<^item> \<open>resolve\<close>: \<open>Path(file_path)\<close>, made absolute against the workspace directory
    and resolved when it is relative, then \<open>str(abs_path)\<close>; \<open>None\<close> is an exception
    raised by \<open>Path.resolve\<close> (a \<open>ValueError\<close> or \<open>RuntimeError\<close>), which can only
    happen for a relative path;
  \<^item> \<open>fs_read\<close>: \<open>open(abs_path, 'r')\<close> and reading it; \<open>Inl msg\<close> is an exception
    raised there, \<open>msg\<close> its \<open>str(e)\<close>, and \<open>Inr text\<close> the decoded text.
\<close>

record files =
  resolve :: "pystr \<Rightarrow> pystr option"
  fs_read :: "pystr \<Rightarrow> pystr + pystr"


section \<open>ContextExtractor: \<open>LspService.get_symbol_context\<close>\<close>

text \<open>The returned dict \<open>{"file": ..., "line": ..., "context": [...]}\<close>.\<close>

record symbol_context =
  ctx_file :: pystr
  ctx_line :: int
  ctx_context :: "pystr list"

text \<open>
  The two renderings of a line: \<open>f"\<rightarrow> {i+1}: {lines[i].rstrip()}"\<close> for the target
  line (the arrow is code point 8594) and \<open>f"  {i+1}: {lines[i].rstrip()}"\<close>.
\<close>

definition render_target :: "pystr list \<Rightarrow> nat \<Rightarrow> pystr" where
  "render_target lines i = [8594, 32] @ str_nat (i + 1) @ str '': '' @ rstrip (lines ! i)"

definition render_plain :: "pystr list \<Rightarrow> nat \<Rightarrow> pystr" where
  "render_plain lines i = str ''  '' @ str_nat (i + 1) @ str '': '' @ rstrip (lines ! i)"

text \<open>
  The first loop of the declaration branch ("Determine the indentation of the function
  body"): from index \<open>i\<close>, empty lines and comments are appended to \<open>func_lines\<close> and
  skipped; the first other line fixes \<open>current_indent\<close>. The result is
  \<open>(func_lines, current_indent)\<close>, \<open>None\<close> when the file ends first. \<open>decl\<close> is
  \<open>lines[line_index]\<close>.
\<close>

function indent_scan :: "pystr list \<Rightarrow> pystr \<Rightarrow> nat \<Rightarrow> pystr list \<Rightarrow> pystr list \<times> nat option" where
  "indent_scan lines decl i func_lines =
     (if i < length lines then
        (let stripped_line = lstrip (lines ! i) in
         if stripped_line = [] \<or> startswith stripped_line (str ''#'') then
           indent_scan lines decl (i + 1) (func_lines @ [render_plain lines i])
         else
           (let indent = length (lines ! i) - length stripped_line in
            if contains (str ''def '') decl then (func_lines, Some indent)
            else if contains (str ''class '') decl then (func_lines, Some indent)
            else indent_scan lines decl (i + 1) func_lines))
      else (func_lines, None))"
  by pat_completeness auto
termination
  by (relation "measure (\<lambda>(lines, decl, i, func_lines). length lines - i)") auto

declare indent_scan.simps [simp del]

text \<open>
  The second loop ("Add all lines of the function body"): from index \<open>i\<close>, lines are
  appended until one is not blank, does not start with \<open>current_indent\<close> spaces and
  does not start with a tab.
\<close>

function body_scan :: "pystr list \<Rightarrow> nat \<Rightarrow> nat \<Rightarrow> pystr list \<Rightarrow> pystr list" where
  "body_scan lines current_indent i func_lines =
     (if i < length lines then
        (if strip (lines ! i) \<noteq> [] \<and>
            \<not> startswith (lines ! i) (replicate current_indent 32) \<and>
            \<not> startswith (lines ! i) [9]
         then func_lines
         else body_scan lines current_indent (i + 1) (func_lines @ [render_plain lines i]))
      else func_lines)"
  by pat_completeness auto
termination
  by (relation "measure (\<lambda>(lines, current_indent, i, func_lines). length lines - i)") auto

declare body_scan.simps [simp del]

text \<open>
  The standard context: \<open>range(max(0, line_index - 5), min(len(lines), line_index + 6))\<close>,
  the target line marked.
\<close>

definition window_context :: "pystr list \<Rightarrow> nat \<Rightarrow> pystr list" where
  "window_context lines line_index =
     map (\<lambda>i. if i = line_index then render_target lines i else render_plain lines i)
       [line_index - 5 ..< min (length lines) (line_index + 6)]"

text \<open>
  The body of the \<open>try\<close> block, after the file has been read into \<open>lines\<close>: the
  context list of the returned dict.
\<close>

definition context_of_lines :: "pystr list \<Rightarrow> int \<Rightarrow> pystr list" where
  "context_of_lines lines line =
     (let line_index = line - 1 in
      if line_index < 0 \<or> line_index \<ge> int (length lines) then
        [str ''Line '' @ str_int line @ str '' is out of range'']
      else
        (let li = nat line_index; decl = lines ! li in
         if contains (str ''def '') decl \<or> contains (str ''class '') decl then
           (case indent_scan lines decl (li + 1) [render_target lines li] of
              (func_lines, None) \<Rightarrow> func_lines
            | (func_lines, Some current_indent) \<Rightarrow>
                body_scan lines current_indent (li + 1) func_lines)
         else window_context lines li))"

text \<open>
  \<open>get_symbol_context(file_path, line)\<close>. The path is resolved before the \<open>try\<close>
  block: an exception raised there reaches the caller, the result \<open>None\<close>. Everything
  else stands in the \<open>try\<close> block, whose handler returns the one-line context
  \<open>f"Error: {str(e)}"\<close>.
\<close>

definition get_symbol_context :: "files \<Rightarrow> pystr \<Rightarrow> int \<Rightarrow> symbol_context option" where
  "get_symbol_context fs file_path line =
     (case resolve fs file_path of
        None \<Rightarrow> None
      | Some abs_path \<Rightarrow>
          (case fs_read fs abs_path of
             Inl e \<Rightarrow>
               Some \<lparr>ctx_file = abs_path, ctx_line = line, ctx_context = [str ''Error: '' @ e]\<rparr>
           | Inr text \<Rightarrow>
               Some \<lparr>ctx_file = abs_path, ctx_line = line,
                     ctx_context = context_of_lines (readlines text) line\<rparr>))"

text \<open>
  Notions used to state properties of the two scans. \<open>indentation\<close> is the source's
  \<open>len(lines[i]) - len(stripped_line)\<close>; \<open>skipped\<close> is the first loop's test for an
  empty line or a comment; \<open>kept\<close> is the negation of the second loop's \<open>break\<close>
  test.
\<close>

definition indentation :: "pystr \<Rightarrow> nat" where
  "indentation l = length l - length (lstrip l)"

definition skipped :: "pystr \<Rightarrow> bool" where
  "skipped l \<longleftrightarrow> lstrip l = [] \<or> startswith (lstrip l) (str ''#'')"

definition kept :: "nat \<Rightarrow> pystr \<Rightarrow> bool" where
  "kept k l \<longleftrightarrow> strip l = [] \<or> startswith l (replicate k 32) \<or> startswith l [9]"

text \<open>A line whose leading whitespace is made of spaces only.\<close>

definition space_indented :: "pystr \<Rightarrow> bool" where
  "space_indented l \<longleftrightarrow> takeWhile isspace l = replicate (indentation l) 32"

text \<open>
  The last line of the block as the specification words it, for a declaration at index
  \<open>li\<close>: with \<open>b\<close> the first body line (the first line after the declaration that is
  neither empty nor a comment), the line immediately before the first subsequent line
  whose indentation is strictly smaller than that of line \<open>b\<close>, or the last line of the
  file when there is no such line.
\<close>

definition claimed_last_line :: "pystr list \<Rightarrow> nat \<Rightarrow> nat option" where
  "claimed_last_line lines li =
     (case find (\<lambda>j. \<not> skipped (lines ! j)) [li + 1..<length lines] of
        None \<Rightarrow> None
      | Some b \<Rightarrow>
          (case find (\<lambda>j. indentation (lines ! j) < indentation (lines ! b)) [li + 1..<length lines] of
             None \<Rightarrow> Some (length lines - 1)
           | Some e \<Rightarrow> Some (e - 1)))"


section \<open>SymbolLocator: \<open>find_symbol_position\<close>\<close>

text \<open>
  \<open>\w\<close> of a \<open>re\<close> pattern over \<open>str\<close>: the underscore and every code point for
  which \<open>str.isalnum\<close> holds. On ASCII these are the digits and the letters; beyond
  ASCII the answer is a table of the Unicode database, the parameter \<open>U\<close>.
\<close>

definition is_word :: "(nat \<Rightarrow> bool) \<Rightarrow> nat \<Rightarrow> bool" where
  "is_word U c \<longleftrightarrow>
     c = 95 \<or>
     (if c < 128 then (48 \<le> c \<and> c \<le> 57) \<or> (65 \<le> c \<and> c \<le> 90) \<or> (97 \<le> c \<and> c \<le> 122)
      else U c)"

text \<open>
  \<open>\b\<close> at position \<open>p\<close> of \<open>s\<close>: exactly one of the characters before and at
  \<open>p\<close> is a word character, the outside of the string counting as none.
\<close>

definition boundary :: "(nat \<Rightarrow> bool) \<Rightarrow> pystr \<Rightarrow> nat \<Rightarrow> bool" where
  "boundary U s p \<longleftrightarrow>
     (0 < p \<and> p \<le> length s \<and> is_word U (s ! (p - 1))) \<noteq> (p < length s \<and> is_word U (s ! p))"

text \<open>
  \<open>rf'\b{re.escape(symbol_name)}\b'\<close> matches at offset \<open>i\<close>: the escaped symbol
  matches itself, character by character.
\<close>

definition word_at :: "(nat \<Rightarrow> bool) \<Rightarrow> pystr \<Rightarrow> pystr \<Rightarrow> nat \<Rightarrow> bool" where
  "word_at U symb s i \<longleftrightarrow>
     boundary U s i \<and> startswith (drop i s) symb \<and> boundary U s (i + length symb)"

text \<open>
  \<open>rf'\bKW\s+{re.escape(symbol_name)}\b'\<close> matches at offset \<open>i\<close>, for the keyword
  \<open>KW\<close>: some number \<open>k \<ge> 1\<close> of whitespace characters stands between the keyword and
  the symbol.
\<close>

definition kw_at :: "(nat \<Rightarrow> bool) \<Rightarrow> pystr \<Rightarrow> pystr \<Rightarrow> pystr \<Rightarrow> nat \<Rightarrow> bool" where
  "kw_at U kw symb s i \<longleftrightarrow>
     boundary U s i \<and> startswith (drop i s) kw \<and>
     list_ex (\<lambda>k. i + length kw + k \<le> length s \<and>
                  list_all isspace (take k (drop (i + length kw) s)) \<and>
                  startswith (drop (i + length kw + k) s) symb \<and>
                  boundary U s (i + length kw + k + length symb))
       [1..<length s + 1]"

text \<open>
  \<open>re.search\<close> tries the offsets from left to right, the end of the string included.
  \<open>search_kw\<close> is the truth value of the match object, \<open>search_word\<close> is
  \<open>match.start()\<close> when there is a match.
\<close>

definition search_kw :: "(nat \<Rightarrow> bool) \<Rightarrow> pystr \<Rightarrow> pystr \<Rightarrow> pystr \<Rightarrow> bool" where
  "search_kw U kw symb s = list_ex (kw_at U kw symb s) [0..<length s + 1]"

definition search_word :: "(nat \<Rightarrow> bool) \<Rightarrow> pystr \<Rightarrow> pystr \<Rightarrow> nat option" where
  "search_word U symb s = find (word_at U symb s) [0..<length s + 1]"

text \<open>\<open>s.find(p)\<close>: the lowest offset at which \<open>p\<close> occurs in \<open>s\<close>, or \<open>-1\<close>.\<close>

fun py_find_from :: "pystr \<Rightarrow> pystr \<Rightarrow> nat \<Rightarrow> int" where
  "py_find_from p [] i = (if p = [] then int i else - 1)"
| "py_find_from p (c # s) i = (if startswith (c # s) p then int i else py_find_from p s (i + 1))"

definition py_find :: "pystr \<Rightarrow> pystr \<Rightarrow> int" where
  "py_find s p = py_find_from p s 0"

text \<open>
  The body of the loop over the lines, for one line: the column the loop returns with,
  or \<open>None\<close> when it goes on to the next line.
\<close>

definition line_position :: "(nat \<Rightarrow> bool) \<Rightarrow> pystr \<Rightarrow> pystr \<Rightarrow> int option" where
  "line_position U symbol_name line =
     (if search_kw U (str ''def'') symbol_name line then Some (py_find line symbol_name)
      else if search_kw U (str ''class'') symbol_name line then Some (py_find line symbol_name)
      else (case search_word U symbol_name line of
              Some start \<Rightarrow> Some (int start)
            | None \<Rightarrow> None))"

text \<open>\<open>for line_num, line in enumerate(lines)\<close>, from \<open>line_num\<close> on.\<close>

fun search_lines :: "(nat \<Rightarrow> bool) \<Rightarrow> pystr \<Rightarrow> nat \<Rightarrow> pystr list \<Rightarrow> (nat \<times> int) option" where
  "search_lines U symbol_name line_num [] = None"
| "search_lines U symbol_name line_num (line # rest) =
     (case line_position U symbol_name line of
        Some char_pos \<Rightarrow> Some (line_num, char_pos)
      | None \<Rightarrow> search_lines U symbol_name (line_num + 1) rest)"

text \<open>
  \<open>find_symbol_position(file_path, symbol_name)\<close>, the same in \<open>LspService\<close> and in
  \<open>LanguageServer\<close>. The path is resolved before the \<open>try\<close> block: \<open>None\<close> is an
  exception raised there. \<open>Some None\<close> is the pair \<open>(None, None)\<close>, returned when no
  line matches and when reading the file raises.
\<close>

definition find_symbol_position ::
  "files \<Rightarrow> (nat \<Rightarrow> bool) \<Rightarrow> pystr \<Rightarrow> pystr \<Rightarrow> (nat \<times> int) option option" where
  "find_symbol_position fs U file_path symbol_name =
     (case resolve fs file_path of
        None \<Rightarrow> None
      | Some abs_path \<Rightarrow>
          (case fs_read fs abs_path of
             Inl e \<Rightarrow> Some None
           | Inr text \<Rightarrow> Some (search_lines U symbol_name 0 (readlines text))))"

text \<open>A line matches one of the three patterns.\<close>

definition matches_tier :: "(nat \<Rightarrow> bool) \<Rightarrow> pystr \<Rightarrow> pystr \<Rightarrow> bool" where
  "matches_tier U symb line \<longleftrightarrow>
     search_kw U (str ''def'') symb line \<or> search_kw U (str ''class'') symb line \<or>
     search_word U symb line \<noteq> None"


section \<open>JSON values and \<open>json.dumps\<close>\<close>

text \<open>
  The values the service builds, sends and receives. A dict is an association list in
  insertion order, with distinct keys. Floats do not occur in the messages of this
  client and are left out.
\<close>

datatype json =
    JNull
  | JBool bool
  | JInt int
  | JStr pystr
  | JList "json list"
  | JDict "(pystr \<times> json) list"

text \<open>Python's truth value of a JSON value (\<open>if not locations\<close>, \<open>if definition\<close>).\<close>

fun truthy :: "json \<Rightarrow> bool" where
  "truthy JNull = False"
| "truthy (JBool b) = b"
| "truthy (JInt i) = (i \<noteq> 0)"
| "truthy (JStr s) = (s \<noteq> [])"
| "truthy (JList xs) = (xs \<noteq> [])"
| "truthy (JDict kvs) = (kvs \<noteq> [])"

text \<open>
  \<open>json.dumps(message)\<close> with its defaults: \<open>ensure_ascii=True\<close>, the separators
  \<open>", "\<close> and \<open>": "\<close>. A character of a string is written as itself when it is
  printable ASCII other than the quote and the backslash, by a two-character escape for
  the quote, the backslash and the five control characters that have one (a backslash,
  code point 92, and one more character), and otherwise as a backslash, the letter u and
  four hexadecimal digits, a code point beyond the basic plane as a surrogate pair.
\<close>

definition hex_digit :: "nat \<Rightarrow> nat" where
  "hex_digit d = (if d < 10 then 48 + d else 87 + d)"

definition hex4 :: "nat \<Rightarrow> pystr" where
  "hex4 n = [hex_digit (n div 4096 mod 16), hex_digit (n div 256 mod 16),
             hex_digit (n div 16 mod 16), hex_digit (n mod 16)]"

definition escape_char :: "nat \<Rightarrow> pystr" where
  "escape_char c =
     (if c = 34 then [92, 34]
      else if c = 92 then [92, 92]
      else if c = 10 then [92, 110]
      else if c = 13 then [92, 114]
      else if c = 9 then [92, 116]
      else if c = 12 then [92, 102]
      else if c = 8 then [92, 98]
      else if 32 \<le> c \<and> c \<le> 126 then [c]
      else if c < 65536 then [92, 117] @ hex4 c
      else [92, 117] @ hex4 (55296 + (c - 65536) div 1024 mod 1024) @
           [92, 117] @ hex4 (56320 + (c - 65536) mod 1024))"

definition dumps_str :: "pystr \<Rightarrow> pystr" where
  "dumps_str s = [34] @ concat (map escape_char s) @ [34]"

fun json_dumps :: "json \<Rightarrow> pystr"
  and dumps_items :: "json list \<Rightarrow> pystr"
  and dumps_pairs :: "(pystr \<times> json) list \<Rightarrow> pystr" where
  "json_dumps JNull = str ''null''"
| "json_dumps (JBool b) = (if b then str ''true'' else str ''false'')"
| "json_dumps (JInt i) = str_int i"
| "json_dumps (JStr s) = dumps_str s"
| "json_dumps (JList xs) = str ''['' @ dumps_items xs @ str '']''"
| "json_dumps (JDict kvs) = str ''{'' @ dumps_pairs kvs @ str ''}''"
| "dumps_items [] = []"
| "dumps_items [x] = json_dumps x"
| "dumps_items (x # y # xs) = json_dumps x @ str '', '' @ dumps_items (y # xs)"
| "dumps_pairs [] = []"
| "dumps_pairs [(k, v)] = dumps_str k @ str '': '' @ json_dumps v"
| "dumps_pairs ((k, v) # p # kvs) =
     dumps_str k @ str '': '' @ json_dumps v @ str '', '' @ dumps_pairs (p # kvs)"

text \<open>
  \<open>s.encode('utf-8')\<close>, bytes as numbers below 256. A surrogate code point cannot be
  encoded: \<open>None\<close> is the \<open>UnicodeEncodeError\<close>.
\<close>

definition utf8_char :: "nat \<Rightarrow> nat list option" where
  "utf8_char c =
     (if c < 128 then Some [c]
      else if c < 2048 then Some [192 + c div 64, 128 + c mod 64]
      else if c < 65536 then
        (if 55296 \<le> c \<and> c \<le> 57343 then None
         else Some [224 + c div 4096, 128 + c div 64 mod 64, 128 + c mod 64])
      else if c < 1114112 then
        Some [240 + c div 262144, 128 + c div 4096 mod 64, 128 + c div 64 mod 64, 128 + c mod 64]
      else None)"

fun utf8_encode :: "pystr \<Rightarrow> nat list option" where
  "utf8_encode [] = Some []"
| "utf8_encode (c # s) =
     (case utf8_char c of
        None \<Rightarrow> None
      | Some bs \<Rightarrow> (case utf8_encode s of None \<Rightarrow> None | Some rest \<Rightarrow> Some (bs @ rest)))"


section \<open>ServerConnection: framing and request/response correlation\<close>

text \<open>
  What \<open>_send_message\<close> writes to the standard input of the server process for one
  message: the encoded header \<open>f"Content-Length: {len(content)}\r\n\r\n"\<close>, then the
  encoded content. \<open>None\<close> is an encoding error.
\<close>

definition frame :: "json \<Rightarrow> nat list option" where
  "frame message =
     (let content = json_dumps message;
          header = str ''Content-Length: '' @ str_nat (length content) @ [13, 10, 13, 10]
      in case utf8_encode header of
           None \<Rightarrow> None
         | Some h \<Rightarrow> (case utf8_encode content of None \<Rightarrow> None | Some c \<Rightarrow> Some (h @ c)))"

text \<open>
  The environment of the service: the file system, the Unicode table of \<open>\w\<close>, the
  path and URL functions of the standard library, the file index built at start-up, and
  the language servers. \<open>launch ext\<close> tells whether \<open>subprocess.Popen\<close> starts the
  command of an extension; \<open>arrivals ext request\<close> is what the reader thread of that
  server puts into the response queue after \<open>request\<close> has been written: one batch of
  parsed messages for every polling pass of the waiting loop, the length of the list
  being the number of passes that fit into the ten seconds of the timeout.
\<close>

record world =
  filesystem :: files
  alnum :: "nat \<Rightarrow> bool"
  workspace_dir :: pystr
  pid :: int
  suffix :: "pystr \<Rightarrow> pystr"
  quote :: "pystr \<Rightarrow> pystr"
  unquote :: "pystr \<Rightarrow> pystr"
  relpath :: "pystr \<Rightarrow> pystr option"
  file_index :: "(pystr \<times> pystr list) list"
  launch :: "pystr \<Rightarrow> bool"
  arrivals :: "pystr \<Rightarrow> json \<Rightarrow> json list list"

text \<open>
  A \<open>LanguageServer\<close> object. \<open>process\<close> is \<open>NoProcess\<close> when \<open>self.process\<close> is
  \<open>None\<close>, \<open>Alive\<close> when \<open>self.process.poll()\<close> is \<open>None\<close> and \<open>Exited\<close> otherwise.
  \<open>sent\<close> lists the messages written to the standard input of the process, each as the
  bytes \<open>frame\<close> gives.
\<close>

datatype process = NoProcess | Alive | Exited

record server =
  file_ext :: pystr
  process :: process
  request_id :: int
  is_initialized :: bool
  capabilities :: "json option"
  response_queue :: "json list"
  sent :: "json list"

definition is_running :: "server \<Rightarrow> bool" where
  "is_running srv \<longleftrightarrow> process srv = Alive"

text \<open>
  \<open>_send_message\<close>. In this sequential model a process that is running at the test
  takes the write, so the handler of \<open>BrokenPipeError\<close> is not entered.
\<close>

definition send_message :: "json \<Rightarrow> server \<Rightarrow> server" where
  "send_message message srv =
     (if \<not> is_running srv then srv else srv\<lparr>sent := sent srv @ [message]\<rparr>)"

definition send_notification :: "pystr \<Rightarrow> json \<Rightarrow> server \<Rightarrow> server" where
  "send_notification method params srv =
     (if \<not> is_running srv then srv
      else send_message
             (JDict [(str ''jsonrpc'', JStr (str ''2.0'')), (str ''method'', JStr method),
                     (str ''params'', params)]) srv)"

text \<open>
  The test \<open>'id' in response and response['id'] == self.request_id\<close> on a parsed
  message: it holds, fails, or raises (on a value that is no dict the operator \<open>in\<close> or
  the subscript raises a \<open>TypeError\<close>).
\<close>

datatype id_test = Match | NoMatch | Raise

fun json_eq_int :: "json \<Rightarrow> int \<Rightarrow> bool" where
  "json_eq_int (JInt i) n = (i = n)"
| "json_eq_int (JBool b) n = ((if b then 1 else 0) = n)"
| "json_eq_int v n = False"

fun has_id :: "int \<Rightarrow> json \<Rightarrow> id_test" where
  "has_id rid (JDict kvs) =
     (case map_of kvs (str ''id'') of
        None \<Rightarrow> NoMatch
      | Some v \<Rightarrow> if json_eq_int v rid then Match else NoMatch)"
| "has_id rid (JStr s) = (if contains (str ''id'') s then Raise else NoMatch)"
| "has_id rid (JList xs) = (if JStr (str ''id'') \<in> set xs then Raise else NoMatch)"
| "has_id rid v = Raise"

text \<open>
  One polling pass, the inner loop \<open>while not self.response_queue.empty()\<close>: messages
  are taken from the queue one by one. \<open>Found response queue\<close> is the \<open>return response\<close>
  with the rest of the queue; \<open>Drained responses\<close> is the empty queue, with the messages
  collected in the local list \<open>responses\<close>; \<open>Raised queue\<close> is an exception.
\<close>

datatype drained = Found json "json list" | Drained "json list" | Raised "json list"

fun drain :: "int \<Rightarrow> json list \<Rightarrow> json list \<Rightarrow> drained" where
  "drain rid [] responses = Drained responses"
| "drain rid (response # queue) responses =
     (case has_id rid response of
        Match \<Rightarrow> Found response queue
      | NoMatch \<Rightarrow> drain rid queue (responses @ [response])
      | Raise \<Rightarrow> Raised queue)"

text \<open>
  The waiting loop of \<open>_send_request\<close>: before each pass the reader thread has put the
  next batch into the queue; after a pass without match the collected messages are put
  back and the loop sleeps. The result is the response (\<open>None\<close> after the timeout or an
  exception) and the queue left behind.
\<close>

fun wait_response :: "int \<Rightarrow> json list \<Rightarrow> json list list \<Rightarrow> json option \<times> json list" where
  "wait_response rid queue [] = (None, queue)"
| "wait_response rid queue (batch # later) =
     (case drain rid (queue @ batch) [] of
        Found response queue' \<Rightarrow> (Some response, queue')
      | Drained responses \<Rightarrow> wait_response rid responses later
      | Raised queue' \<Rightarrow> (None, queue'))"

definition send_request :: "world \<Rightarrow> pystr \<Rightarrow> json \<Rightarrow> server \<Rightarrow> json option \<times> server" where
  "send_request w method params srv =
     (if \<not> is_running srv then (None, srv)
      else
        (let rid = request_id srv + 1;
             request = JDict [(str ''jsonrpc'', JStr (str ''2.0'')), (str ''id'', JInt rid),
                              (str ''method'', JStr method), (str ''params'', params)];
             srv1 = send_message request (srv\<lparr>request_id := rid\<rparr>);
             (response, queue) =
               wait_response rid (response_queue srv1) (arrivals w (file_ext srv) request)
         in (response, srv1\<lparr>response_queue := queue\<rparr>)))"


section \<open>ServerConnection: handshake, documents and queries\<close>

text \<open>\<open>value[key]\<close> on a parsed value: \<open>None\<close> is the \<open>KeyError\<close> or \<open>TypeError\<close>.\<close>

fun subscript :: "json \<Rightarrow> pystr \<Rightarrow> json option" where
  "subscript (JDict kvs) k = map_of kvs k"
| "subscript v k = None"

text \<open>
  \<open>not response or 'result' not in response\<close> followed by \<open>response['result']\<close>, as the
  three queries and the handshake do it; \<open>response\<close> is what \<open>_send_request\<close> returned.
\<close>

definition result_of :: "json option \<Rightarrow> json option" where
  "result_of response =
     (case response of
        None \<Rightarrow> None
      | Some r \<Rightarrow> if \<not> truthy r then None else subscript r (str ''result''))"

definition initialize_params :: "world \<Rightarrow> json" where
  "initialize_params w =
     JDict [(str ''processId'', JInt (pid w)),
            (str ''rootPath'', JStr (workspace_dir w)),
            (str ''rootUri'', JStr (str ''file://'' @ quote w (workspace_dir w))),
            (str ''capabilities'',
               JDict [(str ''textDocument'',
                         JDict [(str ''definition'', JDict [(str ''dynamicRegistration'', JBool True)]),
                                (str ''references'', JDict [(str ''dynamicRegistration'', JBool True)]),
                                (str ''synchronization'', JDict [(str ''dynamicRegistration'', JBool True)]),
                                (str ''completion'', JDict [(str ''dynamicRegistration'', JBool True)])]),
                      (str ''workspace'',
                         JDict [(str ''symbol'', JDict [(str ''dynamicRegistration'', JBool True)])])])]"

text \<open>
  \<open>initialize\<close>: \<open>Some (ok, srv)\<close> is its return value and the server afterwards,
  \<open>None\<close> an exception (\<open>response['result']['capabilities']\<close> does not exist).
\<close>

definition initialize :: "world \<Rightarrow> server \<Rightarrow> (bool \<times> server) option" where
  "initialize w srv =
     (let (response, srv1) = send_request w (str ''initialize'') (initialize_params w) srv in
      case result_of response of
        None \<Rightarrow> Some (False, srv1)
      | Some result \<Rightarrow>
          (case subscript result (str ''capabilities'') of
             None \<Rightarrow> None
           | Some caps \<Rightarrow>
               Some (True, (send_notification (str ''initialized'') (JDict [])
                              (srv1\<lparr>capabilities := Some caps\<rparr>))\<lparr>is_initialized := True\<rparr>)))"

text \<open>
  \<open>LanguageServer(workspace_dir, file_ext, cmd)\<close> followed by \<open>start()\<close>: the started
  server, or \<open>None\<close> when \<open>start\<close> returns \<open>False\<close> (the process cannot be launched, or
  the handshake fails or raises).
\<close>

definition new_server :: "pystr \<Rightarrow> server" where
  "new_server ext =
     \<lparr>file_ext = ext, process = NoProcess, request_id = 0, is_initialized = False,
      capabilities = None, response_queue = [], sent = []\<rparr>"

definition start :: "world \<Rightarrow> pystr \<Rightarrow> server option" where
  "start w ext =
     (if \<not> launch w ext then None
      else (case initialize w ((new_server ext)\<lparr>process := Alive\<rparr>) of
              Some (True, srv) \<Rightarrow> Some srv
            | _ \<Rightarrow> None))"


text \<open>
  \<open>LanguageServer.open_document\<close>: the return value and the server afterwards. Here
  and in the operations below that resolve a path before any \<open>try\<close> block, the value
  \<open>None\<close> in the place of the return value is an exception raised by the resolution,
  paired with the state at that moment.
\<close>

definition did_open :: "world \<Rightarrow> pystr \<Rightarrow> pystr \<Rightarrow> json" where
  "did_open w abs_path content =
     JDict [(str ''textDocument'',
               JDict [(str ''uri'', JStr (str ''file://'' @ quote w abs_path)),
                      (str ''languageId'', JStr (drop 1 (suffix w abs_path))),
                      (str ''version'', JInt 1),
                      (str ''text'', JStr content)])]"

definition server_open_document :: "world \<Rightarrow> pystr \<Rightarrow> server \<Rightarrow> bool option \<times> server" where
  "server_open_document w file_path srv =
     (case resolve (filesystem w) file_path of
        None \<Rightarrow> (None, srv)
      | Some abs_path \<Rightarrow>
          (case fs_read (filesystem w) abs_path of
             Inl e \<Rightarrow> (Some False, srv)
           | Inr content \<Rightarrow>
               (Some True,
                send_notification (str ''textDocument/didOpen'') (did_open w abs_path content) srv)))"

text \<open>
  \<open>find_definition\<close>, \<open>find_references\<close> and \<open>find_workspace_symbol\<close>: the returned
  value (\<open>None\<close> when there is no response or no result in it) and the server afterwards.
  The first two resolve the path first.
\<close>

definition position_params :: "world \<Rightarrow> pystr \<Rightarrow> nat \<Rightarrow> int \<Rightarrow> (pystr \<times> json) list" where
  "position_params w abs_path line character =
     [(str ''textDocument'',
         JDict [(str ''uri'', JStr (str ''file://'' @ quote w abs_path))]),
      (str ''position'',
         JDict [(str ''line'', JInt (int line)), (str ''character'', JInt character)])]"

definition find_definition ::
  "world \<Rightarrow> pystr \<Rightarrow> nat \<Rightarrow> int \<Rightarrow> server \<Rightarrow> json option option \<times> server" where
  "find_definition w file_path line character srv =
     (case resolve (filesystem w) file_path of
        None \<Rightarrow> (None, srv)
      | Some abs_path \<Rightarrow>
          (let (response, srv1) =
                 send_request w (str ''textDocument/definition'')
                   (JDict (position_params w abs_path line character)) srv
           in (Some (result_of response), srv1)))"

definition find_references ::
  "world \<Rightarrow> bool \<Rightarrow> pystr \<Rightarrow> nat \<Rightarrow> int \<Rightarrow> server \<Rightarrow> json option option \<times> server" where
  "find_references w include_declaration file_path line character srv =
     (case resolve (filesystem w) file_path of
        None \<Rightarrow> (None, srv)
      | Some abs_path \<Rightarrow>
          (let (response, srv1) =
                 send_request w (str ''textDocument/references'')
                   (JDict (position_params w abs_path line character @
                           [(str ''context'',
                               JDict [(str ''includeDeclaration'', JBool include_declaration)])])) srv
           in (Some (result_of response), srv1)))"

definition find_workspace_symbol :: "world \<Rightarrow> pystr \<Rightarrow> server \<Rightarrow> json option \<times> server" where
  "find_workspace_symbol w query srv =
     (let (response, srv1) =
            send_request w (str ''workspace/symbol'') (JDict [(str ''query'', JStr query)]) srv
      in (result_of response, srv1))"


section \<open>ServerPool and OpenDocumentSet: \<open>LspService\<close>\<close>

text \<open>
  The state of an \<open>LspService\<close>: the dict \<open>self.servers\<close>, in insertion order, and the
  set \<open>self.open_documents\<close>, a list without repetition.
\<close>

record service =
  servers :: "(pystr \<times> server) list"
  open_documents :: "pystr list"

definition initial_service :: service where
  "initial_service = \<lparr>servers = [], open_documents = []\<rparr>"

text \<open>\<open>self.servers[ext] = server\<close>; also the write-back of a server object that a call has changed.\<close>

fun put_server :: "pystr \<Rightarrow> server \<Rightarrow> (pystr \<times> server) list \<Rightarrow> (pystr \<times> server) list" where
  "put_server ext srv [] = [(ext, srv)]"
| "put_server ext srv ((k, v) # rest) =
     (if k = ext then (ext, srv) # rest else (k, v) # put_server ext srv rest)"

text \<open>
  \<open>get_server_for_file\<close>: the extension under which the returned server stands in the
  pool (\<open>None\<close> when no server could be started) and the service afterwards.
\<close>

definition get_server_for_file :: "world \<Rightarrow> pystr \<Rightarrow> service \<Rightarrow> pystr option \<times> service" where
  "get_server_for_file w file_path st =
     (let file_ext = suffix w file_path;
          started = (case start w file_ext of
                       Some srv \<Rightarrow> (Some file_ext, st\<lparr>servers := put_server file_ext srv (servers st)\<rparr>)
                     | None \<Rightarrow> (None, st))
      in case map_of (servers st) file_ext of
           Some srv \<Rightarrow> if is_running srv then (Some file_ext, st) else started
         | None \<Rightarrow> started)"

text \<open>
  A call on the server object that stands under \<open>ext\<close>: the object is changed in place,
  so the pool sees the change.
\<close>

definition on_server ::
  "pystr \<Rightarrow> (server \<Rightarrow> 'a \<times> server) \<Rightarrow> 'a \<Rightarrow> service \<Rightarrow> 'a \<times> service" where
  "on_server ext call dflt st =
     (case map_of (servers st) ext of
        None \<Rightarrow> (dflt, st)
      | Some srv \<Rightarrow>
          (let (r, srv1) = call srv in (r, st\<lparr>servers := put_server ext srv1 (servers st)\<rparr>)))"

text \<open>
  \<open>LspService.open_document\<close>; \<open>None\<close> in the place of the return value is an
  exception of a path resolution, which no \<open>try\<close> block of the operation catches.
\<close>

definition open_document :: "world \<Rightarrow> pystr \<Rightarrow> service \<Rightarrow> bool option \<times> service" where
  "open_document w file_path st =
     (case resolve (filesystem w) file_path of
        None \<Rightarrow> (None, st)
      | Some abs_path \<Rightarrow>
          (case get_server_for_file w abs_path st of
             (None, st1) \<Rightarrow> (Some False, st1)
           | (Some ext, st1) \<Rightarrow>
               (let uri = str ''file://'' @ abs_path in
                if uri \<notin> set (open_documents st1) then
                  (let (result, st2) = on_server ext (server_open_document w abs_path) None st1 in
                   if result = Some True
                   then (result, st2\<lparr>open_documents := open_documents st2 @ [uri]\<rparr>)
                   else (result, st2))
                else (Some True, st1))))"



section \<open>Result processing: \<open>_process_locations\<close> and \<open>_process_workspace_symbols\<close>\<close>

text \<open>\<open>s.replace(old, new)\<close> for a non-empty \<open>old\<close>: every occurrence, from the left.\<close>

function replace_all :: "pystr \<Rightarrow> pystr \<Rightarrow> pystr \<Rightarrow> pystr" where
  "replace_all old new [] = []"
| "replace_all old new (c # s) =
     (if old \<noteq> [] \<and> startswith (c # s) old
      then new @ replace_all old new (drop (length old - 1) s)
      else c # replace_all old new s)"
  by pat_completeness auto
termination
  by (relation "measure (\<lambda>(old, new, s). length s)") auto

text \<open>
  \<open>k in value\<close> for a string \<open>k\<close>: a key of a dict, a substring of a string, an element
  of a list; \<open>None\<close> is the \<open>TypeError\<close> on any other value.
\<close>

fun key_in :: "pystr \<Rightarrow> json \<Rightarrow> bool option" where
  "key_in k (JDict kvs) = Some (map_of kvs k \<noteq> None)"
| "key_in k (JStr s) = Some (contains k s)"
| "key_in k (JList xs) = Some (JStr k \<in> set xs)"
| "key_in k v = None"

text \<open>\<open>value + 1\<close>: defined on integers and on the booleans, which are integers.\<close>

fun plus_one :: "json \<Rightarrow> int option" where
  "plus_one (JInt i) = Some (i + 1)"
| "plus_one (JBool b) = Some ((if b then 1 else 0) + 1)"
| "plus_one v = None"

text \<open>
  \<open>location[range_key]['start'][field] + 1\<close>, and the pair of it for \<open>'line'\<close> and
  \<open>'character'\<close>; \<open>None\<close> is the \<open>KeyError\<close> or \<open>TypeError\<close>.
\<close>

definition start_field :: "json \<Rightarrow> pystr \<Rightarrow> pystr \<Rightarrow> int option" where
  "start_field location range_key field =
     Option.bind (subscript location range_key) (\<lambda>range.
     Option.bind (subscript range (str ''start'')) (\<lambda>start.
     Option.bind (subscript start field) plus_one))"

definition start_position :: "json \<Rightarrow> pystr \<Rightarrow> (int \<times> int) option" where
  "start_position location range_key =
     Option.bind (start_field location range_key (str ''line'')) (\<lambda>line.
     Option.bind (start_field location range_key (str ''character'')) (\<lambda>character.
     Some (line, character)))"

text \<open>
  One location in the \<open>Location\<close> format (keys \<open>uri\<close>, \<open>range\<close>) or the \<open>LocationLink\<close>
  format (keys \<open>targetUri\<close>, \<open>targetRange\<close>): the appended result, \<open>None\<close> for an
  exception.
\<close>

definition located :: "world \<Rightarrow> pystr \<Rightarrow> json \<Rightarrow> pystr \<Rightarrow> pystr \<Rightarrow> json option" where
  "located w symbol_name location uri_key range_key =
     (case subscript location uri_key of
        Some (JStr uri) \<Rightarrow>
          (case start_position location range_key of
             None \<Rightarrow> None
           | Some (line, character) \<Rightarrow>
               (let target_file = unquote w (replace_all (str ''file://'') [] uri) in
                case get_symbol_context (filesystem w) target_file line of
                  None \<Rightarrow> None
                | Some context \<Rightarrow>
                    (let rel_path =
                           (case relpath w target_file of Some p \<Rightarrow> p | None \<Rightarrow> target_file)
                     in Some (JDict [(str ''symbol'', JStr symbol_name),
                                     (str ''file'', JStr rel_path),
                                     (str ''line'', JInt line),
                                     (str ''column'', JInt character),
                                     (str ''context'', JList (map JStr (ctx_context context)))]))))
      | _ \<Rightarrow> None)"

text \<open>
  The body of the loop over the locations: \<open>None\<close> for an exception, \<open>Some None\<close> for
  \<open>continue\<close>, \<open>Some (Some r)\<close> for the appended result.
\<close>

definition process_location :: "world \<Rightarrow> pystr \<Rightarrow> json \<Rightarrow> json option option" where
  "process_location w symbol_name location =
     (case key_in (str ''uri'') location of
        None \<Rightarrow> None
      | Some True \<Rightarrow>
          (case located w symbol_name location (str ''uri'') (str ''range'') of
             None \<Rightarrow> None | Some r \<Rightarrow> Some (Some r))
      | Some False \<Rightarrow>
          (case key_in (str ''targetUri'') location of
             None \<Rightarrow> None
           | Some True \<Rightarrow>
               (case located w symbol_name location (str ''targetUri'') (str ''targetRange'') of
                  None \<Rightarrow> None | Some r \<Rightarrow> Some (Some r))
           | Some False \<Rightarrow> Some None))"

fun process_each :: "world \<Rightarrow> pystr \<Rightarrow> json list \<Rightarrow> json list option" where
  "process_each w symbol_name [] = Some []"
| "process_each w symbol_name (location # locations) =
     (case process_location w symbol_name location of
        None \<Rightarrow> None
      | Some r \<Rightarrow>
          (case process_each w symbol_name locations of
             None \<Rightarrow> None
           | Some results \<Rightarrow> Some ((case r of None \<Rightarrow> [] | Some x \<Rightarrow> [x]) @ results)))"

text \<open>\<open>_process_locations(locations, symbol_name)\<close>: the returned dict, \<open>None\<close> for an exception.\<close>

definition process_locations :: "world \<Rightarrow> json \<Rightarrow> pystr \<Rightarrow> json option" where
  "process_locations w locations symbol_name =
     (if \<not> truthy locations then
        Some (JDict [(str ''error'',
                      JStr (str ''No locations found for '' @ [39] @ symbol_name @ [39]))])
      else
        (case process_each w symbol_name (case locations of JList xs \<Rightarrow> xs | v \<Rightarrow> [v]) of
           None \<Rightarrow> None
         | Some results \<Rightarrow> Some (JDict [(str ''results'', JList results)])))"

text \<open>
  \<open>_symbol_kind_to_string(symbol.get('kind', 0))\<close>: the lookup in the table of kind
  names, \<open>symbol\<close> for any other hashable value, \<open>None\<close> (a \<open>TypeError\<close>) for a list
  or a dict.
\<close>

definition kind_names :: "string list" where
  "kind_names =
     [''file'', ''module'', ''namespace'', ''package'', ''class'', ''method'', ''property'',
      ''field'', ''constructor'', ''enum'', ''interface'', ''function'', ''variable'',
      ''constant'', ''string'', ''number'', ''boolean'', ''array'', ''object'', ''key'',
      ''null'', ''enum member'', ''struct'', ''event'', ''operator'', ''type parameter'']"

definition kind_of_int :: "int \<Rightarrow> pystr" where
  "kind_of_int kind =
     (if 1 \<le> kind \<and> kind \<le> 26 then str (kind_names ! (nat kind - 1)) else str ''symbol'')"

fun symbol_kind_to_string :: "json option \<Rightarrow> pystr option" where
  "symbol_kind_to_string None = Some (kind_of_int 0)"
| "symbol_kind_to_string (Some (JInt i)) = Some (kind_of_int i)"
| "symbol_kind_to_string (Some (JBool b)) = Some (kind_of_int (if b then 1 else 0))"
| "symbol_kind_to_string (Some (JList xs)) = None"
| "symbol_kind_to_string (Some (JDict kvs)) = None"
| "symbol_kind_to_string (Some v) = Some (str ''symbol'')"

text \<open>The body of the loop of \<open>_process_workspace_symbols\<close>, \<open>None\<close> for an exception.\<close>

definition process_symbol :: "world \<Rightarrow> json \<Rightarrow> json option" where
  "process_symbol w symbol =
     (case Option.bind (subscript symbol (str ''location'')) (\<lambda>l. subscript l (str ''uri'')) of
        Some (JStr uri) \<Rightarrow>
          (case relpath w (replace_all (str ''file://'') [] uri) of
             None \<Rightarrow> None
           | Some rel_path \<Rightarrow>
               Option.bind
                 (Option.bind (subscript symbol (str ''location'')) (\<lambda>l.
                    start_field l (str ''range'') (str ''line'')))
                 (\<lambda>line.
               Option.bind (symbol_kind_to_string (subscript symbol (str ''kind''))) (\<lambda>kind.
               Option.bind (subscript symbol (str ''name'')) (\<lambda>name.
                 Some (JDict [(str ''name'', name), (str ''kind'', JStr kind),
                              (str ''file'', JStr rel_path), (str ''line'', JInt line)])))))
      | _ \<Rightarrow> None)"

fun process_symbols :: "world \<Rightarrow> json list \<Rightarrow> json list option" where
  "process_symbols w [] = Some []"
| "process_symbols w (symbol # symbols) =
     (case process_symbol w symbol of
        None \<Rightarrow> None
      | Some r \<Rightarrow>
          (case process_symbols w symbols of None \<Rightarrow> None | Some results \<Rightarrow> Some (r # results)))"

text \<open>
  \<open>_process_workspace_symbols(symbols)\<close> for a true value \<open>symbols\<close>: iterating
  anything but a list ends in an exception.
\<close>

definition process_workspace_symbols :: "world \<Rightarrow> json \<Rightarrow> json list option" where
  "process_workspace_symbols w symbols =
     (case symbols of JList xs \<Rightarrow> process_symbols w xs | v \<Rightarrow> None)"


section \<open>QueryAggregator: \<open>CodeBrowserAPI\<close> and \<open>LspService.find_symbol\<close>\<close>

text \<open>
  The files of the index in the order of the two nested loops
  \<open>for file_ext, files in file_index.items(): for file_path in files\<close>.
\<close>

definition indexed_files :: "world \<Rightarrow> pystr list" where
  "indexed_files w = concat (map snd (file_index w))"

text \<open>\<open>_process_locations(...)["results"]\<close>, ready for the \<open>for\<close> loop.\<close>

definition results_list :: "json \<Rightarrow> json list option" where
  "results_list r = (case subscript r (str ''results'') of Some (JList rs) \<Rightarrow> Some rs | _ \<Rightarrow> None)"

text \<open>
  The body of the loop over the files, the same in the three scans but for the query it
  sends (\<open>find_definition\<close>, or \<open>find_references\<close> with
  \<open>include_declaration=True\<close>), up to the inner loop over the processed locations: the
  list that loop runs over, empty when the body ends before it (no server, symbol not
  found, no answer, or an exception, of a path resolution or of the processing, which the
  \<open>try\<close> of the body catches), and the service afterwards.
\<close>

definition locations_in_file ::
  "world \<Rightarrow> (pystr \<Rightarrow> nat \<Rightarrow> int \<Rightarrow> server \<Rightarrow> json option option \<times> server) \<Rightarrow> pystr \<Rightarrow> pystr
     \<Rightarrow> service \<Rightarrow> json list \<times> service" where
  "locations_in_file w query symbol_name file_path st =
     (case get_server_for_file w file_path st of
        (None, st1) \<Rightarrow> ([], st1)
      | (Some ext, st1) \<Rightarrow>
          (case open_document w file_path st1 of
             (None, st2) \<Rightarrow> ([], st2)
           | (Some opened, st2) \<Rightarrow>
               (case find_symbol_position (filesystem w) (alnum w) file_path symbol_name of
                  None \<Rightarrow> ([], st2)
                | Some None \<Rightarrow> ([], st2)
                | Some (Some (line, character)) \<Rightarrow>
                    (let (answer, st3) = on_server ext (query file_path line character) None st2 in
                     case answer of
                       None \<Rightarrow> ([], st3)
                     | Some None \<Rightarrow> ([], st3)
                     | Some (Some locations) \<Rightarrow>
                         if truthy locations then
                           (case Option.bind (process_locations w locations symbol_name) results_list of
                              None \<Rightarrow> ([], st3)
                            | Some rs \<Rightarrow> (rs, st3))
                         else ([], st3)))))"

text \<open>The key \<open>(loc['file'], loc['line'], loc['column'])\<close> of a processed location.\<close>

type_synonym loc_key = "json option \<times> json option \<times> json option"

definition loc_key :: "json \<Rightarrow> loc_key" where
  "loc_key loc = (subscript loc (str ''file''), subscript loc (str ''line''), subscript loc (str ''column''))"

text \<open>
  The inner loop of \<open>goto_definition\<close>: a location whose key has not been seen is
  appended to \<open>results\<close> and its key added to \<open>seen_locations\<close>.
\<close>

fun add_definitions :: "json list \<Rightarrow> loc_key list \<times> json list \<Rightarrow> loc_key list \<times> json list" where
  "add_definitions [] (seen_locations, results) = (seen_locations, results)"
| "add_definitions (def_loc # rest) (seen_locations, results) =
     (if loc_key def_loc \<notin> set seen_locations
      then add_definitions rest (seen_locations @ [loc_key def_loc], results @ [def_loc])
      else add_definitions rest (seen_locations, results))"

text \<open>The loop of \<open>goto_definition\<close> over the files.\<close>

fun definition_loop ::
  "world \<Rightarrow> pystr \<Rightarrow> pystr list \<Rightarrow> loc_key list \<times> json list \<Rightarrow> service
     \<Rightarrow> (loc_key list \<times> json list) \<times> service" where
  "definition_loop w symbol_name [] acc st = (acc, st)"
| "definition_loop w symbol_name (file_path # files) acc st =
     (let (locs, st1) = locations_in_file w (find_definition w) symbol_name file_path st
      in definition_loop w symbol_name files (add_definitions locs acc) st1)"

text \<open>
  \<open>CodeBrowserAPI.goto_definition\<close>: the dict handed to \<open>json.dumps\<close>, and the service
  afterwards.
\<close>

definition goto_definition :: "world \<Rightarrow> pystr \<Rightarrow> service \<Rightarrow> json \<times> service" where
  "goto_definition w symbol_name st =
     (let ((seen_locations, results), st1) =
            definition_loop w symbol_name (indexed_files w) ([], []) st
      in if results = [] then
           (JDict [(str ''error'',
                    JStr (str ''No definition found for '' @ [39] @ symbol_name @ [39]))], st1)
         else (JDict [(str ''results'', JList results)], st1))"

text \<open>
  The first loop of \<open>goto_references\<close>: the keys of all definitions are collected in
  \<open>definition_locations\<close>.
\<close>

fun exclusion_loop :: "world \<Rightarrow> pystr \<Rightarrow> pystr list \<Rightarrow> loc_key list \<Rightarrow> service \<Rightarrow> loc_key list \<times> service" where
  "exclusion_loop w symbol_name [] definition_locations st = (definition_locations, st)"
| "exclusion_loop w symbol_name (file_path # files) definition_locations st =
     (let (locs, st1) = locations_in_file w (find_definition w) symbol_name file_path st
      in exclusion_loop w symbol_name files (definition_locations @ map loc_key locs) st1)"

text \<open>
  The inner loop of the second scan: a reference is appended when its key is neither a
  definition's nor seen.
\<close>

fun add_references ::
  "loc_key list \<Rightarrow> json list \<Rightarrow> loc_key list \<times> json list \<Rightarrow> loc_key list \<times> json list" where
  "add_references definition_locations [] (seen_locations, results) = (seen_locations, results)"
| "add_references definition_locations (ref # rest) (seen_locations, results) =
     (if loc_key ref \<notin> set definition_locations \<and> loc_key ref \<notin> set seen_locations
      then add_references definition_locations rest
             (seen_locations @ [loc_key ref], results @ [ref])
      else add_references definition_locations rest (seen_locations, results))"

fun reference_loop ::
  "world \<Rightarrow> pystr \<Rightarrow> loc_key list \<Rightarrow> pystr list \<Rightarrow> loc_key list \<times> json list \<Rightarrow> service
     \<Rightarrow> (loc_key list \<times> json list) \<times> service" where
  "reference_loop w symbol_name definition_locations [] acc st = (acc, st)"
| "reference_loop w symbol_name definition_locations (file_path # files) acc st =
     (let (locs, st1) = locations_in_file w (find_references w True) symbol_name file_path st
      in reference_loop w symbol_name definition_locations files
           (add_references definition_locations locs acc) st1)"

text \<open>\<open>CodeBrowserAPI.goto_references\<close>.\<close>

definition goto_references :: "world \<Rightarrow> pystr \<Rightarrow> service \<Rightarrow> json \<times> service" where
  "goto_references w symbol_name st =
     (let (definition_locations, st1) = exclusion_loop w symbol_name (indexed_files w) [] st;
          ((seen_locations, results), st2) =
            reference_loop w symbol_name definition_locations (indexed_files w) ([], []) st1
      in if results = [] then
           (JDict [(str ''error'',
                    JStr (str ''No references found for '' @ [39] @ symbol_name @ [39]))], st2)
         else (JDict [(str ''results'', JList results)], st2))"

text \<open>
  \<open>LspService.find_symbol\<close>, which \<open>CodeBrowserAPI.find_symbol\<close> hands to
  \<open>json.dumps\<close>: the loop over the extensions of the index, and the returned dict.
  \<open>None\<close> is an exception, which nothing here catches.
\<close>

fun find_symbol_loop ::
  "world \<Rightarrow> pystr \<Rightarrow> (pystr \<times> pystr list) list \<Rightarrow> json list \<Rightarrow> service
     \<Rightarrow> (json list \<times> service) option" where
  "find_symbol_loop w symbol_name [] results st = Some (results, st)"
| "find_symbol_loop w symbol_name ((ext, files) # rest) results st =
     (case files of
        [] \<Rightarrow> find_symbol_loop w symbol_name rest results st
      | file_path # others \<Rightarrow>
          (case get_server_for_file w file_path st of
             (None, st1) \<Rightarrow> find_symbol_loop w symbol_name rest results st1
           | (Some key, st1) \<Rightarrow>
               (let (symbols, st2) = on_server key (find_workspace_symbol w symbol_name) None st1 in
                case symbols of
                  None \<Rightarrow> find_symbol_loop w symbol_name rest results st2
                | Some found \<Rightarrow>
                    if truthy found then
                      (case process_workspace_symbols w found of
                         None \<Rightarrow> None
                       | Some rs \<Rightarrow> find_symbol_loop w symbol_name rest (results @ rs) st2)
                    else find_symbol_loop w symbol_name rest results st2)))"

definition find_symbol :: "world \<Rightarrow> pystr \<Rightarrow> service \<Rightarrow> (json \<times> service) option" where
  "find_symbol w symbol_name st =
     (case find_symbol_loop w symbol_name (file_index w) [] st of
        None \<Rightarrow> None
      | Some (results, st1) \<Rightarrow>
          if results = [] then
            Some (JDict [(str ''error'',
                          JStr (str ''No symbols found for '' @ [39] @ symbol_name @ [39]))], st1)
          else Some (JDict [(str ''results'', JList results)], st1))"

text \<open>
  \<open>CodeBrowserAPI.get_symbol_context\<close>: the dict of \<open>LspService.get_symbol_context\<close>
  as handed to \<open>json.dumps\<close>, \<open>None\<close> when that operation raises.
\<close>

definition context_json :: "symbol_context \<Rightarrow> json" where
  "context_json c =
     JDict [(str ''file'', JStr (ctx_file c)), (str ''line'', JInt (ctx_line c)),
            (str ''context'', JList (map JStr (ctx_context c)))]"

definition api_get_symbol_context :: "world \<Rightarrow> pystr \<Rightarrow> int \<Rightarrow> json option" where
  "api_get_symbol_context w file_path line =
     map_option context_json (get_symbol_context (filesystem w) file_path line)"

text \<open>
  Notions used to state properties of the two operations. \<open>scan_locations\<close> is the
  sequence of processed locations that a scan of the files meets, in the order in which
  it meets them, together with the service the scan leaves behind; \<open>entries\<close> is the
  list under \<open>results\<close> of a returned dict, empty for an error dict.
\<close>

fun scan_locations ::
  "(pystr \<Rightarrow> service \<Rightarrow> json list \<times> service) \<Rightarrow> pystr list \<Rightarrow> service \<Rightarrow> json list \<times> service" where
  "scan_locations body [] st = ([], st)"
| "scan_locations body (file_path # files) st =
     (let (locs, st1) = body file_path st;
          (more, st2) = scan_locations body files st1
      in (locs @ more, st2))"

definition entries :: "json \<Rightarrow> json list" where
  "entries r = (case results_list r of Some rs \<Rightarrow> rs | None \<Rightarrow> [])"

text \<open>
  The locations of a sequence that are kept when keys in \<open>excluded\<close> and keys met
  before are suppressed.
\<close>

fun first_by_key :: "loc_key list \<Rightarrow> json list \<Rightarrow> json list" where
  "first_by_key excluded [] = []"
| "first_by_key excluded (x # xs) =
     (if loc_key x \<in> set excluded then first_by_key excluded xs
      else x # first_by_key (excluded @ [loc_key x]) xs)"

text \<open>
  The shapes of the returned values: an error dict; a results dict whose entries all
  satisfy \<open>P\<close>; an entry that \<open>_process_locations\<close> builds for some location; an entry
  built by \<open>_process_workspace_symbols\<close>.
\<close>

definition error_value :: "json \<Rightarrow> bool" where
  "error_value r \<longleftrightarrow> (\<exists>message. r = JDict [(str ''error'', JStr message)])"

definition results_value :: "(json \<Rightarrow> bool) \<Rightarrow> json \<Rightarrow> bool" where
  "results_value P r \<longleftrightarrow> (\<exists>rs. rs \<noteq> [] \<and> r = JDict [(str ''results'', JList rs)] \<and> list_all P rs)"

definition location_entry :: "world \<Rightarrow> pystr \<Rightarrow> json \<Rightarrow> bool" where
  "location_entry w symbol_name e \<longleftrightarrow>
     (\<exists>location. process_location w symbol_name location = Some (Some e))"

text \<open>
  The zero-based position a location of a server answer gives under \<open>range_key\<close>:
  \<open>location[range_key]['start']['line']\<close> and \<open>...['character']\<close> as integers (a boolean
  is the integer 1 or 0). \<open>entry_for\<close> says what an entry for a location looks like: the
  five keys, the line and the column each one more than the zero-based value.
\<close>

fun int_of :: "json \<Rightarrow> int option" where
  "int_of (JInt i) = Some i"
| "int_of (JBool b) = Some (if b then 1 else 0)"
| "int_of v = None"

definition zero_based :: "json \<Rightarrow> pystr \<Rightarrow> (int \<times> int) option" where
  "zero_based location range_key =
     Option.bind (subscript location range_key) (\<lambda>range.
     Option.bind (subscript range (str ''start'')) (\<lambda>start.
     Option.bind (Option.bind (subscript start (str ''line'')) int_of) (\<lambda>line.
     Option.bind (Option.bind (subscript start (str ''character'')) int_of) (\<lambda>character.
     Some (line, character)))))"

definition entry_for :: "pystr \<Rightarrow> json \<Rightarrow> json \<Rightarrow> bool" where
  "entry_for symbol_name location e \<longleftrightarrow>
     (\<exists>range_key line character file context.
        (range_key = str ''range'' \<or> range_key = str ''targetRange'') \<and>
        zero_based location range_key = Some (line, character) \<and>
        e = JDict [(str ''symbol'', JStr symbol_name), (str ''file'', JStr file),
                   (str ''line'', JInt (line + 1)), (str ''column'', JInt (character + 1)),
                   (str ''context'', JList (map JStr context))])"

definition symbol_entry :: "json \<Rightarrow> bool" where
  "symbol_entry e \<longleftrightarrow>
     (\<exists>name kind file line.
        e = JDict [(str ''name'', name), (str ''kind'', JStr kind), (str ''file'', JStr file),
                   (str ''line'', JInt line)])"


section \<open>The life of a service\<close>





text \<open>
  The documents announced to a connection: the \<open>uri\<close> of every document-opened
  notification written to its process, in the order of writing.
\<close>

definition is_did_open :: "json \<Rightarrow> bool" where
  "is_did_open m \<longleftrightarrow> subscript m (str ''method'') = Some (JStr (str ''textDocument/didOpen''))"

definition document_uri :: "json \<Rightarrow> json option" where
  "document_uri m =
     Option.bind (subscript m (str ''params'')) (\<lambda>p.
     Option.bind (subscript p (str ''textDocument'')) (\<lambda>t. subscript t (str ''uri'')))"

definition announced :: "server \<Rightarrow> json option list" where
  "announced srv = map document_uri (filter is_did_open (sent srv))"




section \<open>An example workspace\<close>

text \<open>
  A workspace \<open>/w\<close> with the one file \<open>/w/a.py\<close>, whose three lines are \<open>def foo():\<close>,
  an indented \<open>pass\<close> and the call \<open>foo()\<close>, and a Python language server that
  answers every request in the first polling pass: the handshake with an empty
  capability set, a definition query with the declaration (line 0, character 4), a
  reference query with the declaration and, twice, the call (line 2, character 0), a
  workspace-symbol query with the function \<open>foo\<close>.
\<close>

definition example_files :: files where
  "example_files =
     \<lparr>resolve = (\<lambda>p. Some p),
      fs_read = (\<lambda>p. if p = str ''/w/a.py''
                      then Inr (str ''def foo():\<newline>    pass\<newline>foo()\<newline>'')
                      else Inl (str ''No such file''))\<rparr>"

definition example_location :: "int \<Rightarrow> int \<Rightarrow> json" where
  "example_location line character =
     JDict [(str ''uri'', JStr (str ''file:///w/a.py'')),
            (str ''range'',
               JDict [(str ''start'',
                         JDict [(str ''line'', JInt line), (str ''character'', JInt character)])])]"

definition example_result :: "pystr \<Rightarrow> json" where
  "example_result method =
     (if method = str ''initialize'' then JDict [(str ''capabilities'', JDict [])]
      else if method = str ''textDocument/definition'' then JList [example_location 0 4]
      else if method = str ''textDocument/references'' then
        JList [example_location 0 4, example_location 2 0, example_location 2 0]
      else if method = str ''workspace/symbol'' then
        JList [JDict [(str ''name'', JStr (str ''foo'')), (str ''kind'', JInt 12),
                      (str ''location'', example_location 0 4)]]
      else JNull)"

definition example_arrivals :: "pystr \<Rightarrow> json \<Rightarrow> json list list" where
  "example_arrivals ext request =
     (case (subscript request (str ''id''), subscript request (str ''method'')) of
        (Some rid, Some (JStr method)) \<Rightarrow>
          [[JDict [(str ''jsonrpc'', JStr (str ''2.0'')), (str ''id'', rid),
                   (str ''result'', example_result method)]]]
      | _ \<Rightarrow> [])"

definition example_world :: world where
  "example_world =
     \<lparr>filesystem = example_files,
      alnum = (\<lambda>c. False),
      workspace_dir = str ''/w'',
      pid = 4711,
      suffix = (\<lambda>p. drop (length p - 3) p),
      quote = (\<lambda>p. p),
      unquote = (\<lambda>p. p),
      relpath = (\<lambda>p. Some (if startswith p (str ''/w/'') then drop 3 p else p)),
      file_index = [(str ''.py'', [str ''/w/a.py''])],
      launch = (\<lambda>ext. ext = str ''.py''),
      arrivals = example_arrivals\<rparr>"


section \<open>Properties of the context extractor\<close>

subsection \<open>The two scans as list functions\<close>

lemma indent_scan_decl:
  assumes "contains (str ''def '') decl \<or> contains (str ''class '') decl"
  shows "indent_scan lines decl i acc =
     (acc @ map (render_plain lines) (takeWhile (\<lambda>j. skipped (lines ! j)) [i..<length lines]),
      case dropWhile (\<lambda>j. skipped (lines ! j)) [i..<length lines] of
        [] \<Rightarrow> None | j # _ \<Rightarrow> Some (indentation (lines ! j)))"
  using assms
proof (induction lines decl i acc rule: indent_scan.induct)
  case (1 lines decl i func_lines)
  show ?case
  proof (cases "i < length lines")
    case False
    then show ?thesis by (simp add: indent_scan.simps)
  next
    case True
    then have up: "[i..<length lines] = i # [i + 1..<length lines]"
      by (simp add: upt_conv_Cons)
    show ?thesis
    proof (cases "skipped (lines ! i)")
      case True
      with \<open>i < length lines\<close> 1(1) 1(3) show ?thesis
        by (subst indent_scan.simps) (simp add: up skipped_def Let_def)
    next
      case False
      with \<open>i < length lines\<close> 1(3) show ?thesis
        by (subst indent_scan.simps) (auto simp add: up skipped_def Let_def indentation_def)
    qed
  qed
qed

lemma body_scan_eq:
  "body_scan lines k i acc =
     acc @ map (render_plain lines) (takeWhile (\<lambda>j. kept k (lines ! j)) [i..<length lines])"
proof (induction lines k i acc rule: body_scan.induct)
  case (1 lines k i func_lines)
  show ?case
  proof (cases "i < length lines")
    case False
    then show ?thesis by (simp add: body_scan.simps)
  next
    case True
    then have up: "[i..<length lines] = i # [i + 1..<length lines]"
      by (simp add: upt_conv_Cons)
    show ?thesis
    proof (cases "kept k (lines ! i)")
      case True
      with \<open>i < length lines\<close> 1 show ?thesis
        by (subst body_scan.simps) (auto simp add: up kept_def)
    next
      case False
      with \<open>i < length lines\<close> show ?thesis
        by (subst body_scan.simps) (auto simp add: up kept_def)
    qed
  qed
qed

lemma dropWhile_all_iff: "(\<forall>x\<in>set (dropWhile P xs). P x) \<longleftrightarrow> dropWhile P xs = []"
proof
  assume h: "\<forall>x\<in>set (dropWhile P xs). P x"
  show "dropWhile P xs = []"
  proof (rule ccontr)
    assume ne: "dropWhile P xs \<noteq> []"
    then have "\<not> P (hd (dropWhile P xs))" by (rule hd_dropWhile)
    moreover have "hd (dropWhile P xs) \<in> set (dropWhile P xs)" using ne by simp
    ultimately show False using h by blast
  qed
next
  assume e: "dropWhile P xs = []"
  show "\<forall>x\<in>set (dropWhile P xs). P x" unfolding e by simp
qed

lemma strip_empty_iff: "strip l = [] \<longleftrightarrow> lstrip l = []"
proof -
  have "strip l = [] \<longleftrightarrow> (\<forall>x\<in>set (dropWhile isspace (rev l)). isspace x)"
    by (simp add: strip_def lstrip_def rstrip_def)
  also have "\<dots> \<longleftrightarrow> dropWhile isspace (rev l) = []" by (rule dropWhile_all_iff)
  also have "\<dots> \<longleftrightarrow> lstrip l = []" by (simp add: lstrip_def)
  finally show ?thesis .
qed

lemma takeWhile_upt_split:
  assumes "i \<le> b" "b \<le> n" "\<And>j. i \<le> j \<Longrightarrow> j < b \<Longrightarrow> P j"
  shows "takeWhile P [i..<n] = [i..<b] @ takeWhile P [b..<n]"
    and "dropWhile P [i..<n] = dropWhile P [b..<n]"
proof -
  have eq: "[i..<n] = [i..<b] @ [b..<n]"
    using assms(1,2) by (metis le_Suc_ex upt_add_eq_append)
  have all: "\<And>j. j \<in> set [i..<b] \<Longrightarrow> P j" using assms(3) by simp
  show "takeWhile P [i..<n] = [i..<b] @ takeWhile P [b..<n]"
    unfolding eq by (rule takeWhile_append2) (rule all)
  show "dropWhile P [i..<n] = dropWhile P [b..<n]"
    unfolding eq by (rule dropWhile_append2) (rule all)
qed

subsection \<open>Diagnostics instead of failures\<close>

text \<open>
  Claim C9 says that the operation never raises. The path is resolved before the \<open>try\<close>
  block, and \<open>Path.resolve\<close> raises a \<open>ValueError\<close> for a relative path with a null
  character in it: the exception reaches the caller.
\<close>

theorem get_symbol_context_raises:
  "get_symbol_context
     \<lparr>resolve = (\<lambda>p. if 0 \<in> set p then None else Some p),
      fs_read = (\<lambda>p. Inl (str ''No such file''))\<rparr> [97, 0, 98] 1 = None"
  by (simp add: get_symbol_context_def)

text \<open>
  Claim C9, amended. The operation raises exactly when the resolution of the path raises.
  When the path resolves, then for every line number outside the 1-based line range of the
  file the result is the structured value whose context is the single line
  \<open>Line <n> is out of range\<close>, and when reading the file fails with an exception \<open>e\<close> the
  result is the structured value whose context is the single line \<open>Error: <str(e)>\<close>.
\<close>

theorem get_symbol_context_diagnostic:
  "(get_symbol_context fs file_path line = None \<longleftrightarrow> resolve fs file_path = None) \<and>
   (\<forall>abs_path e. resolve fs file_path = Some abs_path \<and> fs_read fs abs_path = Inl e \<longrightarrow>
      get_symbol_context fs file_path line =
        Some \<lparr>ctx_file = abs_path, ctx_line = line, ctx_context = [str ''Error: '' @ e]\<rparr>) \<and>
   (\<forall>abs_path text. resolve fs file_path = Some abs_path \<and> fs_read fs abs_path = Inr text \<and>
        (line < 1 \<or> int (length (readlines text)) < line) \<longrightarrow>
      get_symbol_context fs file_path line =
        Some \<lparr>ctx_file = abs_path, ctx_line = line,
              ctx_context = [str ''Line '' @ str_int line @ str '' is out of range'']\<rparr>)"
  by (auto simp: get_symbol_context_def context_of_lines_def Let_def split: option.splits sum.splits)

theorem get_symbol_context_diagnostic_witness:
  "get_symbol_context \<lparr>resolve = (\<lambda>p. Some p), fs_read = (\<lambda>p. Inr (str ''a\<newline>b\<newline>c\<newline>''))\<rparr> (str ''f.py'') 5 =
     Some \<lparr>ctx_file = str ''f.py'', ctx_line = 5, ctx_context = [str ''Line 5 is out of range'']\<rparr> \<and>
   length (readlines (str ''a\<newline>b\<newline>c\<newline>'')) = 3 \<and>
   get_symbol_context \<lparr>resolve = (\<lambda>p. Some p), fs_read = (\<lambda>p. Inl (str ''No such file''))\<rparr> (str ''f.py'') 1 =
     Some \<lparr>ctx_file = str ''f.py'', ctx_line = 1, ctx_context = [str ''Error: No such file'']\<rparr>"
proof -
  have n: "length (readlines (str ''a\<newline>b\<newline>c\<newline>'')) = 3"
    by (simp add: readlines_def str_def)
  have s5: "str_int 5 = str ''5''"
    by (simp add: str_int_def str_nat.simps str_def)
  from n s5 show ?thesis
    using get_symbol_context_diagnostic [of "\<lparr>resolve = (\<lambda>p. Some p), fs_read = (\<lambda>p. Inr (str ''a\<newline>b\<newline>c\<newline>''))\<rparr>" "str ''f.py''" 5]
      get_symbol_context_diagnostic [of "\<lparr>resolve = (\<lambda>p. Some p), fs_read = (\<lambda>p. Inl (str ''No such file''))\<rparr>" "str ''f.py''" 1]
    by (simp add: str_def)
qed

subsection \<open>Lines between a declaration and its body\<close>



subsection \<open>Where the block of a declaration ends\<close>

lemma indentation_takeWhile: "indentation l = length (takeWhile isspace l)"
proof -
  have "length l = length (takeWhile isspace l) + length (dropWhile isspace l)"
    by (metis length_append takeWhile_dropWhile_id)
  then show ?thesis by (simp add: indentation_def lstrip_def)
qed

lemma kept_space_indented:
  assumes nb: "lstrip l \<noteq> []" and sp: "space_indented l"
  shows "kept k l \<longleftrightarrow> k \<le> indentation l"
proof -
  let ?n = "indentation l"
  obtain c r where cr: "dropWhile isspace l = c # r"
    using nb by (cases "dropWhile isspace l") (auto simp: lstrip_def)
  have nc: "\<not> isspace c" using cr by (metis hd_dropWhile list.sel(1) list.distinct(1))
  have c32: "c \<noteq> 32" and c9: "c \<noteq> 9" using nc by (auto simp: isspace_def)
  have l: "l = replicate ?n 32 @ c # r"
    using sp cr takeWhile_dropWhile_id [of isspace l] by (simp add: space_indented_def)
  have a: "startswith l (replicate k 32) \<longleftrightarrow> k \<le> ?n"
  proof
    assume "k \<le> ?n"
    then have "take k (replicate ?n 32 @ c # r) = replicate k (32::nat)" by (simp add: min_def)
    then show "startswith l (replicate k 32)" using l by (simp add: startswith_def)
  next
    assume s: "startswith l (replicate k 32)"
    show "k \<le> ?n"
    proof (rule ccontr)
      assume "\<not> k \<le> ?n"
      then have lt: "?n < k" by simp
      from s l have t: "take k (replicate ?n 32 @ c # r) = replicate k 32" by (simp add: startswith_def)
      have "take k (replicate ?n 32 @ c # r) ! ?n = c" using lt by (simp add: nth_append)
      moreover have "replicate k (32::nat) ! ?n = 32" using lt by simp
      ultimately show False using t c32 by simp
    qed
  qed
  have b: "\<not> startswith l [9]"
  proof
    assume "startswith l [9]"
    then have "take 1 (replicate ?n 32 @ c # r) = [9]" using l by (simp add: startswith_def)
    then show False using c9 by (cases ?n) auto
  qed
  show ?thesis using a b nb by (simp add: kept_def strip_empty_iff)
qed

text \<open>
  Claim C8, as stated, fails on tab-indented text. In the file below the indentations are
  0, 2, 1, 0 (strictly increasing, then strictly decreasing); the first body line has
  indentation 2 and the first later line with a smaller indentation is the third line, so
  the block should end with the second line. The body scan keeps every line that
  starts with a tab, so the block ends with the third line.
\<close>

theorem declaration_context_tab_counterexample:
  "map indentation [str ''def f():\<newline>'', 9 # 9 # str ''x = 1\<newline>'', 9 # str ''y = 2\<newline>'', str ''z = 3\<newline>''] = [0, 2, 1, 0] \<and>
   claimed_last_line [str ''def f():\<newline>'', 9 # 9 # str ''x = 1\<newline>'', 9 # str ''y = 2\<newline>'', str ''z = 3\<newline>''] 0 = Some 1 \<and>
   context_of_lines [str ''def f():\<newline>'', 9 # 9 # str ''x = 1\<newline>'', 9 # str ''y = 2\<newline>'', str ''z = 3\<newline>''] 1 =
     [[8594, 32] @ str ''1: def f():'', str ''  2: '' @ 9 # 9 # str ''x = 1'', str ''  3: '' @ 9 # str ''y = 2''] \<and>
   last (context_of_lines [str ''def f():\<newline>'', 9 # 9 # str ''x = 1\<newline>'', 9 # str ''y = 2\<newline>'', str ''z = 3\<newline>''] 1) \<noteq>
     render_plain [str ''def f():\<newline>'', 9 # 9 # str ''x = 1\<newline>'', 9 # str ''y = 2\<newline>'', str ''z = 3\<newline>''] 1"
  by (simp add: context_of_lines_def str_def indent_scan.simps body_scan.simps Let_def lstrip_def rstrip_def strip_def
    isspace_def startswith_def render_target_def render_plain_def str_nat.simps indentation_def claimed_last_line_def
    skipped_def upt_conv_Cons)


text \<open>
  Claim C8, amended. Let the target line (index \<open>li\<close>) contain \<open>def\<close> or \<open>class\<close>
  followed by a space, let \<open>b\<close> be its first body line, let every later line be blank or
  indented with spaces only, and let the line right after the declaration be blank or at
  least as deep as line \<open>b\<close>. Let \<open>e\<close> be the first index after \<open>li\<close> of a non-blank line
  whose indentation is strictly smaller than that of line \<open>b\<close>, or the length of the file
  when there is none. Then the last line of the context is the rendering of line
  \<open>e - 1\<close>, the line immediately before \<open>e\<close>.
\<close>

theorem declaration_context_last_line:
  assumes decl: "contains (str ''def '') (lines ! li) \<or> contains (str ''class '') (lines ! li)"
    and b: "li < b" "b < length lines" "\<not> skipped (lines ! b)"
           "\<forall>j. li < j \<and> j < b \<longrightarrow> skipped (lines ! j)"
    and sp: "\<forall>j. li < j \<and> j < length lines \<longrightarrow> lstrip (lines ! j) = [] \<or> space_indented (lines ! j)"
    and first: "lstrip (lines ! (li + 1)) = [] \<or> indentation (lines ! b) \<le> indentation (lines ! (li + 1))"
    and e: "li < e" "e \<le> length lines"
           "\<forall>j. li < j \<and> j < e \<longrightarrow> lstrip (lines ! j) = [] \<or> indentation (lines ! b) \<le> indentation (lines ! j)"
           "e = length lines \<or> (lstrip (lines ! e) \<noteq> [] \<and> indentation (lines ! e) < indentation (lines ! b))"
  shows "li + 1 < e \<and> last (context_of_lines lines (int li + 1)) = render_plain lines (e - 1)"
proof -
  let ?k = "indentation (lines ! b)"
  let ?n = "length lines"
  have kp: "kept ?k (lines ! j) \<longleftrightarrow> lstrip (lines ! j) = [] \<or> ?k \<le> indentation (lines ! j)"
    if "li < j" "j < ?n" for j
  proof (cases "lstrip (lines ! j) = []")
    case True
    then show ?thesis by (simp add: kept_def strip_empty_iff)
  next
    case False
    moreover from sp that False have "space_indented (lines ! j)" by blast
    ultimately show ?thesis by (simp add: kept_space_indented)
  qed
  have e2: "li + 1 < e"
  proof (rule ccontr)
    assume "\<not> li + 1 < e"
    with e(1) have ee: "e = li + 1" by simp
    with b(1,2) have "e \<noteq> ?n" by simp
    with e(4) ee first show False by auto
  qed
  have sk: "skipped (lines ! j)" if "Suc li \<le> j" "j < b" for j
  proof -
    from that have "li < j \<and> j < b" by simp
    with b(4) show ?thesis by blast
  qed
  have upb: "[b..<?n] = b # [b + 1..<?n]"
    using b(2) by (simp add: upt_conv_Cons)
  have t1: "takeWhile (\<lambda>j. skipped (lines ! j)) [Suc li..<?n] = [Suc li..<b]"
    using takeWhile_upt_split(1) [of "Suc li" b ?n "\<lambda>j. skipped (lines ! j)"] b(1,2,3) sk
    by (simp add: upb)
  have d1: "dropWhile (\<lambda>j. skipped (lines ! j)) [Suc li..<?n] = b # [b + 1..<?n]"
    using takeWhile_upt_split(2) [of "Suc li" b ?n "\<lambda>j. skipped (lines ! j)"] b(1,2,3) sk
    by (simp add: upb)
  have scan: "indent_scan lines (lines ! li) (Suc li) [render_target lines li] =
      (render_target lines li # map (render_plain lines) [Suc li..<b], Some ?k)"
    by (simp add: indent_scan_decl [OF decl] t1 d1)
  have ke: "kept ?k (lines ! j)" if "Suc li \<le> j" "j < e" for j
  proof -
    from that e(2) have "li < j" "j < ?n" "li < j \<and> j < e" by simp_all
    with kp e(3) show ?thesis by blast
  qed
  have stop: "takeWhile (\<lambda>j. kept ?k (lines ! j)) [e..<?n] = []"
  proof (cases "e = ?n")
    case True
    then show ?thesis by simp
  next
    case False
    with e(2) have lt: "e < ?n" by simp
    from False e(4) have "\<not> kept ?k (lines ! e)" using kp [of e] e(1) lt by auto
    then show ?thesis using lt by (simp add: upt_conv_Cons)
  qed
  have t2: "takeWhile (\<lambda>j. kept ?k (lines ! j)) [Suc li..<?n] = [Suc li..<e]"
    using takeWhile_upt_split(1) [of "Suc li" e ?n "\<lambda>j. kept ?k (lines ! j)"] e(1,2) ke
    by (simp add: stop)
  have li_n: "li < ?n" using b(1,2) by simp
  have ctx: "context_of_lines lines (int li + 1) =
      (render_target lines li # map (render_plain lines) [Suc li..<b]) @
      map (render_plain lines) [Suc li..<e]"
    using li_n decl by (simp add: context_of_lines_def Let_def scan body_scan_eq t2)
  have ne: "[Suc li..<e] \<noteq> []" using e2 by simp
  have "last (map (render_plain lines) [Suc li..<e]) = render_plain lines (e - 1)"
    using ne e2 by (simp add: last_map)
  with ne have "last (context_of_lines lines (int li + 1)) = render_plain lines (e - 1)"
    unfolding ctx by (simp only: last_appendR map_is_Nil_conv not_False_eq_True)
  with e2 show ?thesis by simp
qed

lemma all_between_upt: "(\<forall>j. a < j \<and> j < n \<longrightarrow> P j) \<longleftrightarrow> list_all P [Suc a..<n]"
  by (auto simp: list_all_iff)

theorem declaration_context_last_line_witness:
  "0 + 1 < (4::nat) \<and>
   last (context_of_lines [str ''def f():\<newline>'', str ''    x = 1\<newline>'', str ''        y = 2\<newline>'',
      str ''    z = 3\<newline>'', str ''w = 4\<newline>''] (int 0 + 1)) = str ''  4:     z = 3''"
  using declaration_context_last_line [of "[str ''def f():\<newline>'', str ''    x = 1\<newline>'', str ''        y = 2\<newline>'',
      str ''    z = 3\<newline>'', str ''w = 4\<newline>'']" 0 1 4]
  by (auto simp add: all_between_upt str_def lstrip_def rstrip_def isspace_def startswith_def indentation_def
      render_plain_def skipped_def space_indented_def str_nat.simps upt_conv_Cons)


section \<open>Properties of the symbol locator\<close>

lemma py_find_from_first:
  assumes "\<exists>i\<le>length s. startswith (drop i s) p"
  shows "\<exists>j\<le>length s. py_find_from p s n = int (n + j) \<and> startswith (drop j s) p \<and>
           (\<forall>i<j. \<not> startswith (drop i s) p)"
  using assms
proof (induction s arbitrary: n)
  case Nil
  then show ?case by (auto simp: startswith_def)
next
  case (Cons c s)
  show ?case
  proof (cases "startswith (c # s) p")
    case True
    then show ?thesis by (intro exI [of _ 0]) simp
  next
    case False
    from Cons.prems obtain i where i: "i \<le> length (c # s)" "startswith (drop i (c # s)) p" by blast
    with False obtain i' where i': "i = Suc i'" by (cases i) auto
    with i have "\<exists>i\<le>length s. startswith (drop i s) p" by auto
    from Cons.IH [OF this, of "n + 1"] obtain j where j: "j \<le> length s"
      "py_find_from p s (n + 1) = int (n + 1 + j)" "startswith (drop j s) p"
      "\<forall>i<j. \<not> startswith (drop i s) p" by blast
    have "\<forall>i<Suc j. \<not> startswith (drop i (c # s)) p"
    proof (intro allI impI)
      fix i assume "i < Suc j"
      then show "\<not> startswith (drop i (c # s)) p" using False j(4) by (cases i) auto
    qed
    with j False show ?thesis by (intro exI [of _ "Suc j"]) simp
  qed
qed

lemma kw_at_occurs:
  assumes "kw_at U kw symb s i"
  shows "\<exists>j\<le>length s. startswith (drop j s) symb"
proof -
  from assms obtain k where "i + length kw + k \<le> length s"
    "startswith (drop (i + length kw + k) s) symb"
    by (auto simp: kw_at_def list_ex_iff)
  then show ?thesis by blast
qed

lemma search_kw_find:
  assumes "search_kw U kw symb s"
  shows "0 \<le> py_find s symb \<and> nat (py_find s symb) \<le> length s \<and>
         startswith (drop (nat (py_find s symb)) s) symb \<and>
         (\<forall>i<nat (py_find s symb). \<not> startswith (drop i s) symb)"
proof -
  from assms obtain i where "kw_at U kw symb s i" by (auto simp: search_kw_def list_ex_iff)
  then have "\<exists>j\<le>length s. startswith (drop j s) symb" by (rule kw_at_occurs)
  from py_find_from_first [OF this, of 0] obtain j where j: "j \<le> length s"
    "py_find_from symb s 0 = int j" "startswith (drop j s) symb"
    "\<forall>i<j. \<not> startswith (drop i s) symb" by auto
  then show ?thesis by (simp add: py_find_def)
qed

lemma search_word_first:
  assumes "search_word U symb s = Some c"
  shows "c \<le> length s \<and> word_at U symb s c \<and> (\<forall>i<c. \<not> word_at U symb s i)"
proof -
  from assms obtain i where i: "i < length [0..<length s + 1]"
    "word_at U symb s ([0..<length s + 1] ! i)" "c = [0..<length s + 1] ! i"
    "\<forall>j<i. \<not> word_at U symb s ([0..<length s + 1] ! j)"
    unfolding search_word_def find_Some_iff by blast
  from i(1) have il: "i < length s + 1" by simp
  then have ci: "c = i" using i(3) by (simp add: nth_upt del: upt_Suc)
  have "\<forall>j<c. \<not> word_at U symb s j"
  proof (intro allI impI)
    fix j assume "j < c"
    with ci il have "j < i" "[0..<length s + 1] ! j = j" by (simp_all add: nth_upt del: upt_Suc)
    with i(4) show "\<not> word_at U symb s j" by metis
  qed
  with i(2) ci il show ?thesis by (simp add: nth_upt del: upt_Suc)
qed

lemma line_position_None: "line_position U symb line = None \<longleftrightarrow> \<not> matches_tier U symb line"
  by (auto simp: line_position_def matches_tier_def split: option.splits)

lemma search_lines_None:
  "search_lines U symb n lines = None \<longleftrightarrow> (\<forall>line\<in>set lines. \<not> matches_tier U symb line)"
proof (induction lines arbitrary: n)
  case Nil
  then show ?case by simp
next
  case (Cons line rest)
  show ?case
  proof (cases "line_position U symb line")
    case None
    then have "\<not> matches_tier U symb line" by (simp add: line_position_None)
    with None Cons.IH [of "n + 1"] show ?thesis by simp
  next
    case (Some c)
    then have "matches_tier U symb line" using line_position_None [of U symb line] by simp
    with Some show ?thesis by simp
  qed
qed

lemma search_lines_Some:
  assumes "search_lines U symb n lines = Some (m, c)"
  shows "n \<le> m \<and> m - n < length lines \<and> line_position U symb (lines ! (m - n)) = Some c \<and>
         (\<forall>j<m - n. \<not> matches_tier U symb (lines ! j))"
  using assms
proof (induction lines arbitrary: n)
  case Nil
  then show ?case by simp
next
  case (Cons line rest)
  show ?case
  proof (cases "line_position U symb line")
    case (Some c')
    with Cons.prems show ?thesis by simp
  next
    case None
    with Cons.prems have "search_lines U symb (n + 1) rest = Some (m, c)" by simp
    from Cons.IH [OF this] have ih: "n + 1 \<le> m" "m - (n + 1) < length rest"
      "line_position U symb (rest ! (m - (n + 1))) = Some c"
      "\<forall>j<m - (n + 1). \<not> matches_tier U symb (rest ! j)" by auto
    from ih(1) obtain d where d: "m - n = Suc d" "m - (n + 1) = d" by (cases "m - n") auto
    have "\<forall>j<m - n. \<not> matches_tier U symb ((line # rest) ! j)"
    proof (intro allI impI)
      fix j assume "j < m - n"
      then show "\<not> matches_tier U symb ((line # rest) ! j)"
        using None ih(4) d by (cases j) (auto simp: line_position_None)
    qed
    with ih d show ?thesis by simp
  qed
qed

lemma line_position_column:
  assumes "line_position U symb line = Some c"
  shows "matches_tier U symb line \<and> 0 \<le> c \<and> nat c \<le> length line \<and>
     (if search_kw U (str ''def'') symb line \<or> search_kw U (str ''class'') symb line
      then startswith (drop (nat c) line) symb \<and> (\<forall>i<nat c. \<not> startswith (drop i line) symb)
      else word_at U symb line (nat c) \<and> (\<forall>i<nat c. \<not> word_at U symb line i))"
proof -
  have m: "matches_tier U symb line" using assms line_position_None [of U symb line] by simp
  show ?thesis
  proof (cases "search_kw U (str ''def'') symb line \<or> search_kw U (str ''class'') symb line")
    case True
    then have c: "c = py_find line symb" using assms by (auto simp: line_position_def split: if_splits)
    from True search_kw_find have "0 \<le> py_find line symb \<and> nat (py_find line symb) \<le> length line \<and>
         startswith (drop (nat (py_find line symb)) line) symb \<and>
         (\<forall>i<nat (py_find line symb). \<not> startswith (drop i line) symb)" by blast
    with True m c show ?thesis by simp
  next
    case False
    then obtain st where st: "search_word U symb line = Some st" "c = int st"
      using assms by (auto simp: line_position_def split: if_splits option.splits)
    from search_word_first [OF st(1)] False m st(2) show ?thesis by simp
  qed
qed

lemmas locator_eval = find_symbol_position_def line_position_def search_kw_def kw_at_def boundary_def
  is_word_def search_word_def word_at_def py_find_def str_def startswith_def isspace_def readlines_def
  matches_tier_def

text \<open>
  When the path resolves and the file can be read, the search returns the first line, in
  file order, that matches one of the three patterns, and the pair \<open>(None, None)\<close>
  exactly when no line does. On a line that matches one of the two
  declaration patterns the column is the lowest offset at which the text of the symbol
  occurs in the line (\<open>line.find\<close>); on any other line it is the lowest offset at which
  the symbol stands as a whole word.
\<close>

theorem find_symbol_position_first_match:
  assumes "resolve fs file_path = Some abs_path" and "fs_read fs abs_path = Inr text"
  shows "(find_symbol_position fs U file_path symb = Some None \<longleftrightarrow>
            (\<forall>line\<in>set (readlines text). \<not> matches_tier U symb line)) \<and>
         (\<forall>n c. find_symbol_position fs U file_path symb = Some (Some (n, c)) \<longrightarrow>
            n < length (readlines text) \<and>
            matches_tier U symb (readlines text ! n) \<and>
            (\<forall>m<n. \<not> matches_tier U symb (readlines text ! m)) \<and>
            0 \<le> c \<and> nat c \<le> length (readlines text ! n) \<and>
            (if search_kw U (str ''def'') symb (readlines text ! n) \<or>
                search_kw U (str ''class'') symb (readlines text ! n)
             then startswith (drop (nat c) (readlines text ! n)) symb \<and>
                  (\<forall>i<nat c. \<not> startswith (drop i (readlines text ! n)) symb)
             else word_at U symb (readlines text ! n) (nat c) \<and>
                  (\<forall>i<nat c. \<not> word_at U symb (readlines text ! n) i)))"
proof -
  have none: "find_symbol_position fs U file_path symb = Some None \<longleftrightarrow>
            (\<forall>line\<in>set (readlines text). \<not> matches_tier U symb line)"
    using assms by (simp add: find_symbol_position_def search_lines_None)
  have some: "n < length (readlines text) \<and>
            matches_tier U symb (readlines text ! n) \<and>
            (\<forall>m<n. \<not> matches_tier U symb (readlines text ! m)) \<and>
            0 \<le> c \<and> nat c \<le> length (readlines text ! n) \<and>
            (if search_kw U (str ''def'') symb (readlines text ! n) \<or>
                search_kw U (str ''class'') symb (readlines text ! n)
             then startswith (drop (nat c) (readlines text ! n)) symb \<and>
                  (\<forall>i<nat c. \<not> startswith (drop i (readlines text ! n)) symb)
             else word_at U symb (readlines text ! n) (nat c) \<and>
                  (\<forall>i<nat c. \<not> word_at U symb (readlines text ! n) i))"
    if "find_symbol_position fs U file_path symb = Some (Some (n, c))" for n c
  proof -
    from that assms have s: "search_lines U symb 0 (readlines text) = Some (n, c)"
      by (simp add: find_symbol_position_def)
    from search_lines_Some [OF s] have a: "n < length (readlines text)"
      "line_position U symb (readlines text ! n) = Some c"
      "\<forall>j<n. \<not> matches_tier U symb (readlines text ! j)" by auto
    from line_position_column [OF a(2)] a(1) a(3) show ?thesis by blast
  qed
  from none some show ?thesis by blast
qed

theorem find_symbol_position_first_match_witness:
  "find_symbol_position \<lparr>resolve = (\<lambda>p. Some p), fs_read = (\<lambda>p. Inr (str ''import os\<newline>class   foo(Bar):\<newline>''))\<rparr>
      (\<lambda>c. False) (str ''f.py'') (str ''foo'') = Some (Some (1, 8)) \<and>
   matches_tier (\<lambda>c. False) (str ''foo'') (str ''class   foo(Bar):\<newline>'') \<and>
   \<not> matches_tier (\<lambda>c. False) (str ''foo'') (str ''import os\<newline>'') \<and>
   startswith (drop 8 (str ''class   foo(Bar):\<newline>'')) (str ''foo'')"
proof -
  let ?fs = "\<lparr>resolve = (\<lambda>p. Some p), fs_read = (\<lambda>p. Inr (str ''import os\<newline>class   foo(Bar):\<newline>''))\<rparr>"
  have r: "readlines (str ''import os\<newline>class   foo(Bar):\<newline>'') =
      [str ''import os\<newline>'', str ''class   foo(Bar):\<newline>'']"
    by (simp add: readlines_def str_def)
  have e: "find_symbol_position ?fs (\<lambda>c. False) (str ''f.py'') (str ''foo'') = Some (Some (1, 8))"
    by (simp add: locator_eval)
  have k: "search_kw (\<lambda>c. False) (str ''class'') (str ''foo'') (str ''class   foo(Bar):\<newline>'')"
    by (simp add: locator_eval)
  have h: "resolve ?fs (str ''f.py'') = Some (str ''f.py'')"
    "fs_read ?fs (str ''f.py'') = Inr (str ''import os\<newline>class   foo(Bar):\<newline>'')"
    by simp_all
  from find_symbol_position_first_match [OF h, of "\<lambda>c. False" "str ''foo''", unfolded r] e k
  show ?thesis by auto
qed

text \<open>
  Claim C7 says that the column is the first matching character offset of the line. On the
  file \<open>def f(x):\<close>, \<open>return x\<close> and the symbol \<open>f\<close> the first line matches the
  function-declaration pattern at offset 0, with the symbol as a whole word at offset 4,
  which is also the only offset where \<open>f\<close> stands as a whole word. The search returns
  column 2, the \<open>f\<close> of the keyword \<open>def\<close>: \<open>line.find(symbol_name)\<close> looks for the text
  of the symbol anywhere in the line, and none of the three patterns matches there.
\<close>

theorem find_symbol_position_def_f:
  "find_symbol_position \<lparr>resolve = (\<lambda>p. Some p), fs_read = (\<lambda>p. Inr (str ''def f(x):\<newline>    return x\<newline>''))\<rparr>
      (\<lambda>c. False) (str ''m.py'') (str ''f'') = Some (Some (0, 2)) \<and>
   kw_at (\<lambda>c. False) (str ''def'') (str ''f'') (str ''def f(x):\<newline>'') 0 \<and>
   search_word (\<lambda>c. False) (str ''f'') (str ''def f(x):\<newline>'') = Some 4 \<and>
   \<not> word_at (\<lambda>c. False) (str ''f'') (str ''def f(x):\<newline>'') 2 \<and>
   \<not> kw_at (\<lambda>c. False) (str ''def'') (str ''f'') (str ''def f(x):\<newline>'') 2 \<and>
   \<not> kw_at (\<lambda>c. False) (str ''class'') (str ''f'') (str ''def f(x):\<newline>'') 2"
  by (simp add: locator_eval)


section \<open>Properties of the connection\<close>

subsection \<open>Framing\<close>

lemmas proto_eval = str_def dumps_str_def escape_char_def hex4_def hex_digit_def str_int_def
  str_nat.simps frame_def utf8_char_def Let_def

text \<open>
  With \<open>ensure_ascii\<close>, \<open>json.dumps\<close> writes ASCII only: every character beyond is
  escaped. So the encoding of the content has one byte for each of its characters.
\<close>

lemma str_nat_ascii: "\<forall>c\<in>set (str_nat n). c < 128"
proof (induction n rule: str_nat.induct)
  case (1 n)
  show ?case
  proof (cases "n < 10")
    case True
    then show ?thesis by (simp add: str_nat.simps [of n])
  next
    case False
    have "n mod 10 < 10" by simp
    then have "48 + n mod 10 < 128" by linarith
    with False 1 show ?thesis by (simp add: str_nat.simps [of n])
  qed
qed

lemma str_int_ascii: "\<forall>c\<in>set (str_int i). c < 128"
  using str_nat_ascii by (simp add: str_int_def)

lemma hex_digit_ascii: "d < 16 \<Longrightarrow> hex_digit d < 128"
  by (simp add: hex_digit_def)

lemma hex4_ascii: "\<forall>c\<in>set (hex4 n). c < 128"
  by (simp add: hex4_def hex_digit_ascii)

lemma escape_char_ascii: "\<forall>x\<in>set (escape_char c). x < 128"
  using hex4_ascii by (auto simp: escape_char_def str_def)

lemma dumps_str_ascii: "\<forall>x\<in>set (dumps_str s). x < 128"
  using escape_char_ascii by (auto simp: dumps_str_def)

lemma json_dumps_ascii:
  "\<forall>x\<in>set (json_dumps v). x < 128"
  "\<forall>x\<in>set (dumps_items vs). x < 128"
  "\<forall>x\<in>set (dumps_pairs kvs). x < 128"
proof (induction v and vs and kvs rule: json_dumps_dumps_items_dumps_pairs.induct)
  case (3 i)
  then show ?case using str_int_ascii by simp
next
  case (4 s)
  then show ?case using dumps_str_ascii by simp
next
  case (11 k v)
  then show ?case using dumps_str_ascii [of k] by (auto simp: str_def)
next
  case (12 k v p kvs)
  then show ?case using dumps_str_ascii [of k] by (auto simp: str_def)
qed (auto simp: str_def)

lemma utf8_encode_ascii: "\<forall>c\<in>set s. c < 128 \<Longrightarrow> utf8_encode s = Some s"
  by (induction s) (auto simp: utf8_char_def)

text \<open>
  Claim C1. For every message, \<open>_send_message\<close> writes the header
  \<open>Content-Length: n\<close>, two line ends, and the UTF-8 encoding of the JSON body, where
  \<open>n\<close> is the number of bytes of that encoding. This holds for text beyond ASCII as
  well, which reaches the body in escaped form.
\<close>

theorem content_length_is_byte_length:
  "\<exists>body. utf8_encode (json_dumps message) = Some body \<and>
     frame message = Some (str ''Content-Length: '' @ str_nat (length body) @ [13, 10, 13, 10] @ body)"
proof -
  have b: "utf8_encode (json_dumps message) = Some (json_dumps message)"
    using json_dumps_ascii(1) by (rule utf8_encode_ascii)
  have "\<forall>c\<in>set (str ''Content-Length: '' @ str_nat (length (json_dumps message)) @ [13, 10, 13, 10]). c < 128"
    using str_nat_ascii by (auto simp: str_def)
  then have h: "utf8_encode (str ''Content-Length: '' @ str_nat (length (json_dumps message)) @ [13, 10, 13, 10]) =
      Some (str ''Content-Length: '' @ str_nat (length (json_dumps message)) @ [13, 10, 13, 10])"
    by (rule utf8_encode_ascii)
  show ?thesis using b h by (simp add: frame_def Let_def)
qed


text \<open>
  A document-opened notification whose text is the one character U+00E9: the character
  is written as a six-character escape, the body is 82 characters and 82 bytes long, and
  the header says 82.
\<close>

lemma frame_non_ascii_text:
  "json_dumps (JStr [233]) = [34, 92] @ str ''u00e9'' @ [34] \<and>
   length (json_dumps (JDict [(str ''jsonrpc'', JStr (str ''2.0'')),
      (str ''method'', JStr (str ''textDocument/didOpen'')),
      (str ''params'', JDict [(str ''text'', JStr [233])])])) = 82 \<and>
   frame (JDict [(str ''jsonrpc'', JStr (str ''2.0'')),
      (str ''method'', JStr (str ''textDocument/didOpen'')),
      (str ''params'', JDict [(str ''text'', JStr [233])])]) =
   Some (str ''Content-Length: 82'' @ [13, 10, 13, 10] @
         json_dumps (JDict [(str ''jsonrpc'', JStr (str ''2.0'')),
           (str ''method'', JStr (str ''textDocument/didOpen'')),
           (str ''params'', JDict [(str ''text'', JStr [233])])]))"
  by (simp add: proto_eval)

subsection \<open>Request/response correlation\<close>

text \<open>
  Claim C2 says that no buffered message with another id is discarded, also not one
  taken from the buffer in the pass that finds the response. Here the buffer holds a
  notification when the response to request 1 arrives: the pass takes the notification
  into its local list, finds the response and returns it at once, and the buffer is left
  empty. When no response arrives in the pass, the notification is put back.
\<close>

theorem wait_response_discards_drained:
  "wait_response 1
     [JDict [(str ''jsonrpc'', JStr (str ''2.0'')), (str ''method'', JStr (str ''window/logMessage'')),
             (str ''params'', JNull)]]
     [[JDict [(str ''jsonrpc'', JStr (str ''2.0'')), (str ''id'', JInt 1), (str ''result'', JList [])]]] =
   (Some (JDict [(str ''jsonrpc'', JStr (str ''2.0'')), (str ''id'', JInt 1), (str ''result'', JList [])]), []) \<and>
   wait_response 1
     [JDict [(str ''jsonrpc'', JStr (str ''2.0'')), (str ''method'', JStr (str ''window/logMessage'')),
             (str ''params'', JNull)]]
     [[]] =
   (None, [JDict [(str ''jsonrpc'', JStr (str ''2.0'')), (str ''method'', JStr (str ''window/logMessage'')),
                  (str ''params'', JNull)]])"
  by (simp add: str_def)


section \<open>Properties of the query aggregator\<close>

subsection \<open>The loops as list functions\<close>

lemma first_by_key_excluded: "r \<in> set (first_by_key e xs) \<Longrightarrow> loc_key r \<notin> set e"
proof (induction xs arbitrary: e)
  case Nil
  then show ?case by simp
next
  case (Cons x xs)
  show ?case
  proof (cases "loc_key x \<in> set e")
    case True
    with Cons show ?thesis by simp
  next
    case False
    with Cons.prems have "r = x \<or> r \<in> set (first_by_key (e @ [loc_key x]) xs)" by simp
    then show ?thesis
    proof
      assume "r = x"
      with False show ?thesis by simp
    next
      assume "r \<in> set (first_by_key (e @ [loc_key x]) xs)"
      from Cons.IH [OF this] show ?thesis by simp
    qed
  qed
qed

lemma first_by_key_set: "set (first_by_key e xs) \<subseteq> set xs"
  by (induction xs arbitrary: e) auto

lemma first_by_key_distinct: "distinct (map loc_key (first_by_key e xs))"
proof (induction xs arbitrary: e)
  case Nil
  then show ?case by simp
next
  case (Cons x xs)
  have "loc_key x \<notin> loc_key ` set (first_by_key (e @ [loc_key x]) xs)"
  proof
    assume "loc_key x \<in> loc_key ` set (first_by_key (e @ [loc_key x]) xs)"
    then obtain r where r: "r \<in> set (first_by_key (e @ [loc_key x]) xs)" "loc_key r = loc_key x"
      by auto
    from first_by_key_excluded [OF r(1)] r(2) show False by simp
  qed
  with Cons show ?case by simp
qed

lemma first_by_key_subseq: "subseq (first_by_key e xs) xs"
  by (induction xs arbitrary: e) auto

lemma first_by_key_first:
  "r \<in> set (first_by_key e xs) \<Longrightarrow> find (\<lambda>x. loc_key x = loc_key r) xs = Some r"
proof (induction xs arbitrary: e)
  case Nil
  then show ?case by simp
next
  case (Cons x xs)
  show ?case
  proof (cases "loc_key x \<in> set e")
    case True
    with Cons.prems have r: "r \<in> set (first_by_key e xs)" by simp
    then have "loc_key r \<notin> set e" by (rule first_by_key_excluded)
    with True have "loc_key x \<noteq> loc_key r" by auto
    with Cons.IH [OF r] show ?thesis by simp
  next
    case False
    show ?thesis
    proof (cases "r = x")
      case True
      then show ?thesis by simp
    next
      case ne: False
      with False Cons.prems have r: "r \<in> set (first_by_key (e @ [loc_key x]) xs)" by simp
      then have "loc_key r \<notin> set (e @ [loc_key x])" by (rule first_by_key_excluded)
      then have "loc_key x \<noteq> loc_key r" by auto
      with Cons.IH [OF r] show ?thesis by simp
    qed
  qed
qed

lemma add_definitions_eq:
  "add_definitions locs (seen, results) =
     (seen @ map loc_key (first_by_key seen locs), results @ first_by_key seen locs)"
  by (induction locs arbitrary: seen results) auto

lemma add_references_eq:
  "add_references defs locs (seen, results) =
     (seen @ map loc_key (first_by_key (defs @ seen) locs), results @ first_by_key (defs @ seen) locs)"
  by (induction locs arbitrary: seen results) auto

lemma first_by_key_append:
  "first_by_key e (xs @ ys) = first_by_key e xs @ first_by_key (e @ map loc_key (first_by_key e xs)) ys"
  by (induction xs arbitrary: e) auto

lemma definition_loop_eq:
  "definition_loop w s files (seen, results) st =
     ((seen @ map loc_key (first_by_key seen (fst (scan_locations (locations_in_file w (find_definition w) s) files st))),
       results @ first_by_key seen (fst (scan_locations (locations_in_file w (find_definition w) s) files st))),
      snd (scan_locations (locations_in_file w (find_definition w) s) files st))"
proof (induction files arbitrary: seen results st)
  case Nil
  then show ?case by simp
next
  case (Cons f files)
  then show ?case
    by (simp add: add_definitions_eq first_by_key_append split_beta Let_def)
qed

lemma exclusion_loop_eq:
  "exclusion_loop w s files defs st =
     (defs @ map loc_key (fst (scan_locations (locations_in_file w (find_definition w) s) files st)),
      snd (scan_locations (locations_in_file w (find_definition w) s) files st))"
  by (induction files arbitrary: defs st) (simp_all add: split_beta Let_def)

lemma reference_loop_eq:
  "reference_loop w s defs files (seen, results) st =
     ((seen @ map loc_key (first_by_key (defs @ seen) (fst (scan_locations (locations_in_file w (find_references w True) s) files st))),
       results @ first_by_key (defs @ seen) (fst (scan_locations (locations_in_file w (find_references w True) s) files st))),
      snd (scan_locations (locations_in_file w (find_references w True) s) files st))"
proof (induction files arbitrary: seen results st)
  case Nil
  then show ?case by simp
next
  case (Cons f files)
  then show ?case
    by (simp add: add_references_eq first_by_key_append split_beta Let_def)
qed

lemma entries_results: "entries (JDict [(str ''results'', JList rs)]) = rs"
  by (simp add: entries_def results_list_def)

lemma entries_error: "entries (JDict [(str ''error'', v)]) = []"
  by (simp add: entries_def results_list_def str_def)

lemma goto_definition_entries:
  "entries (fst (goto_definition w s st)) =
     first_by_key [] (fst (scan_locations (locations_in_file w (find_definition w) s) (indexed_files w) st))"
  by (simp add: goto_definition_def definition_loop_eq entries_results entries_error Let_def)

lemma goto_references_entries:
  "entries (fst (goto_references w s st)) =
     first_by_key
       (map loc_key (fst (scan_locations (locations_in_file w (find_definition w) s) (indexed_files w) st)))
       (fst (scan_locations (locations_in_file w (find_references w True) s) (indexed_files w)
          (snd (scan_locations (locations_in_file w (find_definition w) s) (indexed_files w) st))))"
  by (simp add: goto_references_def exclusion_loop_eq reference_loop_eq entries_results entries_error Let_def)


subsection \<open>The example workspace, evaluated\<close>

lemmas context_eval = get_symbol_context_def context_of_lines_def indent_scan.simps body_scan.simps
  window_context_def render_target_def render_plain_def lstrip_def rstrip_def strip_def isspace_def
  startswith_def str_nat.simps str_int_def readlines_def upt_conv_Cons

lemmas service_eval = example_world_def example_files_def example_arrivals_def example_result_def
  example_location_def initial_service_def get_server_for_file_def start_def initialize_def
  initialize_params_def new_server_def send_request_def send_message_def send_notification_def
  is_running_def result_of_def open_document_def on_server_def server_open_document_def did_open_def
  find_definition_def find_references_def find_workspace_symbol_def position_params_def

lemmas aggregator_eval = goto_definition_def goto_references_def find_symbol_def indexed_files_def
  locations_in_file_def process_locations_def process_location_def located_def start_position_def
  start_field_def results_list_def loc_key_def process_workspace_symbols_def process_symbol_def
  kind_of_int_def kind_names_def entries_def

lemma example_start:
  "start example_world (str ''.py'') =
     Some \<lparr>file_ext = str ''.py'', process = Alive, request_id = 1, is_initialized = True,
           capabilities = Some (JDict []), response_queue = [],
           sent = [JDict [(str ''jsonrpc'', JStr (str ''2.0'')), (str ''id'', JInt 1),
                          (str ''method'', JStr (str ''initialize'')),
                          (str ''params'', initialize_params example_world)],
                   JDict [(str ''jsonrpc'', JStr (str ''2.0'')),
                          (str ''method'', JStr (str ''initialized'')), (str ''params'', JDict [])]]\<rparr>"
  by (simp add: service_eval str_def Let_def)

lemma example_goto_definition:
  "fst (goto_definition example_world (str ''foo'') initial_service) =
     JDict [(str ''results'',
       JList [JDict [(str ''symbol'', JStr (str ''foo'')), (str ''file'', JStr (str ''a.py'')),
                     (str ''line'', JInt 1), (str ''column'', JInt 5),
                     (str ''context'', JList [JStr ([8594, 32] @ str ''1: def foo():''),
                                              JStr (str ''  2:     pass'')])]])]"
  by (simp add: aggregator_eval service_eval locator_eval context_eval str_def Let_def)


lemma example_goto_references:
  "fst (goto_references example_world (str ''foo'') initial_service) =
     JDict [(str ''results'',
       JList [JDict [(str ''symbol'', JStr (str ''foo'')), (str ''file'', JStr (str ''a.py'')),
                     (str ''line'', JInt 3), (str ''column'', JInt 1),
                     (str ''context'', JList [JStr (str ''  1: def foo():''),
                                              JStr (str ''  2:     pass''),
                                              JStr ([8594, 32] @ str ''3: foo()'')])]])]"
  by (simp add: aggregator_eval service_eval locator_eval context_eval str_def Let_def)

subsection \<open>References exclude definitions\<close>

text \<open>
  Claim C3. For every symbol and every workspace, with both queries run from the same
  state of the service against the same environment, no location returned by
  \<open>goto_references\<close> has the (file, line, column) key of a location returned by
  \<open>goto_definition\<close>. The first loop of \<open>goto_references\<close> is the scan of
  \<open>goto_definition\<close> and collects the key of every definition before the second loop
  starts, from the state the first loop leaves.
\<close>

theorem references_exclude_definitions:
  "\<forall>a\<in>set (entries (fst (goto_references w s st))).
     \<forall>b\<in>set (entries (fst (goto_definition w s st))). loc_key a \<noteq> loc_key b"
proof (intro ballI)
  fix a b
  assume a: "a \<in> set (entries (fst (goto_references w s st)))"
    and b: "b \<in> set (entries (fst (goto_definition w s st)))"
  let ?defs = "fst (scan_locations (locations_in_file w (find_definition w) s) (indexed_files w) st)"
  from b have "b \<in> set ?defs"
    using first_by_key_set [of "[]" ?defs] by (auto simp: goto_definition_entries)
  then have "loc_key b \<in> set (map loc_key ?defs)" by simp
  moreover from a have "loc_key a \<notin> set (map loc_key ?defs)"
    unfolding goto_references_entries by (rule first_by_key_excluded)
  ultimately show "loc_key a \<noteq> loc_key b" by auto
qed


theorem references_exclude_definitions_witness:
  "entries (fst (goto_references example_world (str ''foo'') initial_service)) =
     [JDict [(str ''symbol'', JStr (str ''foo'')), (str ''file'', JStr (str ''a.py'')),
             (str ''line'', JInt 3), (str ''column'', JInt 1),
             (str ''context'', JList [JStr (str ''  1: def foo():''),
                                      JStr (str ''  2:     pass''),
                                      JStr ([8594, 32] @ str ''3: foo()'')])]] \<and>
   entries (fst (goto_definition example_world (str ''foo'') initial_service)) =
     [JDict [(str ''symbol'', JStr (str ''foo'')), (str ''file'', JStr (str ''a.py'')),
             (str ''line'', JInt 1), (str ''column'', JInt 5),
             (str ''context'', JList [JStr ([8594, 32] @ str ''1: def foo():''),
                                      JStr (str ''  2:     pass'')])]] \<and>
   loc_key (JDict [(str ''symbol'', JStr (str ''foo'')), (str ''file'', JStr (str ''a.py'')),
             (str ''line'', JInt 3), (str ''column'', JInt 1),
             (str ''context'', JList [JStr (str ''  1: def foo():''),
                                      JStr (str ''  2:     pass''),
                                      JStr ([8594, 32] @ str ''3: foo()'')])]) \<noteq>
   loc_key (JDict [(str ''symbol'', JStr (str ''foo'')), (str ''file'', JStr (str ''a.py'')),
             (str ''line'', JInt 1), (str ''column'', JInt 5),
             (str ''context'', JList [JStr ([8594, 32] @ str ''1: def foo():''),
                                      JStr (str ''  2:     pass'')])])"
  using references_exclude_definitions [of example_world "str ''foo''" initial_service]
  unfolding example_goto_references example_goto_definition entries_results
  by simp

subsection \<open>Unique results in the order of the scan\<close>

text \<open>
  Claim C4. The results of \<open>goto_definition\<close> and of \<open>goto_references\<close> never hold two
  entries with the same (file, line, column). They stand in the order in which the scan of
  the file index meets them: the result list is a subsequence of the locations the scan
  meets, and each entry is the first location of the scan that has its key.
\<close>

theorem results_unique_in_scan_order:
  "distinct (map loc_key (entries (fst (goto_definition w s st)))) \<and>
   subseq (entries (fst (goto_definition w s st)))
     (fst (scan_locations (locations_in_file w (find_definition w) s) (indexed_files w) st)) \<and>
   (\<forall>r\<in>set (entries (fst (goto_definition w s st))).
      find (\<lambda>x. loc_key x = loc_key r)
        (fst (scan_locations (locations_in_file w (find_definition w) s) (indexed_files w) st)) = Some r) \<and>
   distinct (map loc_key (entries (fst (goto_references w s st)))) \<and>
   subseq (entries (fst (goto_references w s st)))
     (fst (scan_locations (locations_in_file w (find_references w True) s) (indexed_files w)
        (snd (scan_locations (locations_in_file w (find_definition w) s) (indexed_files w) st)))) \<and>
   (\<forall>r\<in>set (entries (fst (goto_references w s st))).
      find (\<lambda>x. loc_key x = loc_key r)
        (fst (scan_locations (locations_in_file w (find_references w True) s) (indexed_files w)
           (snd (scan_locations (locations_in_file w (find_definition w) s) (indexed_files w) st)))) = Some r)"
  unfolding goto_definition_entries goto_references_entries
  using first_by_key_first
  by (simp add: first_by_key_distinct first_by_key_subseq)

theorem results_unique_in_scan_order_witness:
  "distinct (map loc_key (entries (fst (goto_references example_world (str ''foo'') initial_service)))) \<and>
   length (fst (scan_locations (locations_in_file example_world (find_references example_world True) (str ''foo''))
      (indexed_files example_world)
      (snd (scan_locations (locations_in_file example_world (find_definition example_world) (str ''foo''))
         (indexed_files example_world) initial_service)))) = 3 \<and>
   length (entries (fst (goto_references example_world (str ''foo'') initial_service))) = 1 \<and>
   length (entries (fst (goto_definition example_world (str ''foo'') initial_service))) = 1"
proof -
  have n: "length (fst (scan_locations (locations_in_file example_world (find_references example_world True) (str ''foo''))
      (indexed_files example_world)
      (snd (scan_locations (locations_in_file example_world (find_definition example_world) (str ''foo''))
         (indexed_files example_world) initial_service)))) = 3"
    by (simp add: aggregator_eval service_eval locator_eval context_eval str_def Let_def)
  from results_unique_in_scan_order [of example_world "str ''foo''" initial_service] n
  show ?thesis
    by (simp add: example_goto_references example_goto_definition entries_results)
qed

subsection \<open>The shape of the returned values\<close>

lemma plus_one_int_of: "plus_one v = map_option (\<lambda>i. i + 1) (int_of v)"
  by (cases v) simp_all

lemma start_position_zero_based:
  "start_position location rk = Some (l, c) \<Longrightarrow>
   \<exists>l0 c0. zero_based location rk = Some (l0, c0) \<and> l = l0 + 1 \<and> c = c0 + 1"
  by (auto simp: start_position_def start_field_def zero_based_def plus_one_int_of
      split: Option.bind_splits)

lemma located_entry:
  assumes "located w s location uk rk = Some e" "rk = str ''range'' \<or> rk = str ''targetRange''"
  shows "entry_for s location e"
proof -
  from assms(1) have "\<exists>l c file ctx. start_position location rk = Some (l, c) \<and>
      e = JDict [(str ''symbol'', JStr s), (str ''file'', JStr file),
          (str ''line'', JInt l), (str ''column'', JInt c),
          (str ''context'', JList (map JStr ctx))]"
    by (auto simp: located_def Let_def split: option.splits json.splits) blast+
  then obtain l c fl ctx where
    p: "start_position location rk = Some (l, c)"
    and e: "e = JDict [(str ''symbol'', JStr s), (str ''file'', JStr fl),
          (str ''line'', JInt l), (str ''column'', JInt c),
          (str ''context'', JList (map JStr ctx))]"
    by blast
  from start_position_zero_based [OF p] obtain l0 c0 where
    "zero_based location rk = Some (l0, c0)" "l = l0 + 1" "c = c0 + 1" by blast
  with e assms(2) show ?thesis unfolding entry_for_def by blast
qed

lemma process_location_entry:
  "process_location w s location = Some (Some e) \<Longrightarrow> entry_for s location e"
  by (auto simp: process_location_def split: option.splits bool.splits intro: located_entry)

lemma process_each_entries:
  "process_each w s locations = Some rs \<Longrightarrow> list_all (location_entry w s) rs"
proof (induction locations arbitrary: rs)
  case Nil
  then show ?case by simp
next
  case (Cons l ls)
  then show ?case
    by (auto simp: location_entry_def split: option.splits)
qed

lemma process_locations_entries:
  assumes "Option.bind (process_locations w locations s) results_list = Some rs"
  shows "list_all (location_entry w s) rs"
proof (cases "truthy locations")
  case False
  with assms show ?thesis
    by (simp add: process_locations_def results_list_def str_def)
next
  case True
  with assms obtain es where "process_each w s (case locations of JList xs \<Rightarrow> xs | v \<Rightarrow> [v]) = Some es"
    "rs = es"
    by (auto simp: process_locations_def results_list_def split: option.splits)
  then show ?thesis using process_each_entries by blast
qed

lemma locations_in_file_entries:
  "list_all (location_entry w s) (fst (locations_in_file w q s f st))"
  by (auto simp: locations_in_file_def Let_def split_beta split: option.splits prod.splits
      dest: process_locations_entries)

lemma scan_locations_entries:
  "list_all (location_entry w s) (fst (scan_locations (locations_in_file w q s) files st))"
  by (induction files arbitrary: st) (simp_all add: split_beta Let_def locations_in_file_entries)

lemma first_by_key_entries: "list_all P xs \<Longrightarrow> list_all P (first_by_key e xs)"
  using first_by_key_set [of e xs] by (auto simp: list_all_iff)

lemma error_not_results: "\<not> (error_value r \<and> results_value P r)"
  by (auto simp: error_value_def results_value_def str_def)

lemma goto_definition_shape:
  "error_value (fst (goto_definition w s st)) \<or> results_value (location_entry w s) (fst (goto_definition w s st))"
proof -
  let ?rs = "first_by_key [] (fst (scan_locations (locations_in_file w (find_definition w) s) (indexed_files w) st))"
  have "list_all (location_entry w s) ?rs"
    by (rule first_by_key_entries) (rule scan_locations_entries)
  then show ?thesis
    by (auto simp: goto_definition_def definition_loop_eq Let_def error_value_def results_value_def)
qed

lemma goto_references_shape:
  "error_value (fst (goto_references w s st)) \<or> results_value (location_entry w s) (fst (goto_references w s st))"
proof -
  let ?rs = "first_by_key
       (map loc_key (fst (scan_locations (locations_in_file w (find_definition w) s) (indexed_files w) st)))
       (fst (scan_locations (locations_in_file w (find_references w True) s) (indexed_files w)
          (snd (scan_locations (locations_in_file w (find_definition w) s) (indexed_files w) st))))"
  have "list_all (location_entry w s) ?rs"
    by (rule first_by_key_entries) (rule scan_locations_entries)
  then show ?thesis
    by (auto simp: goto_references_def exclusion_loop_eq reference_loop_eq Let_def error_value_def results_value_def)
qed


lemma process_symbol_entry: "process_symbol w symbol = Some e \<Longrightarrow> symbol_entry e"
  by (auto simp: process_symbol_def symbol_entry_def split: option.splits json.splits Option.bind_splits)

lemma process_symbols_entries: "process_symbols w symbols = Some rs \<Longrightarrow> list_all symbol_entry rs"
  by (induction symbols arbitrary: rs) (auto split: option.splits dest: process_symbol_entry)

lemma process_workspace_symbols_entries:
  "process_workspace_symbols w found = Some rs \<Longrightarrow> list_all symbol_entry rs"
  by (auto simp: process_workspace_symbols_def split: json.splits dest: process_symbols_entries)

lemma find_symbol_loop_entries:
  "find_symbol_loop w s index results st = Some (rs, st') \<Longrightarrow> list_all symbol_entry results \<Longrightarrow>
   list_all symbol_entry rs"
proof (induction w s index results st rule: find_symbol_loop.induct)
  case (1 w s results st)
  then show ?case by simp
next
  case (2 w s ext files rest results st)
  show ?case
  proof (cases files)
    case Nil
    with 2 show ?thesis by simp
  next
    case (Cons f others)
    obtain k st1 where g: "get_server_for_file w f st = (k, st1)" by (cases "get_server_for_file w f st")
    show ?thesis
    proof (cases k)
      case None
      with 2 Cons g show ?thesis by simp
    next
      case (Some key)
      obtain symbols st2 where o: "on_server key (find_workspace_symbol w s) None st1 = (symbols, st2)"
        by (cases "on_server key (find_workspace_symbol w s) None st1")
      show ?thesis
      proof (cases symbols)
        case None
        with 2 Cons g Some o show ?thesis by simp
      next
        case found: (Some found)
        show ?thesis
        proof (cases "truthy found")
          case False
          with 2 Cons g Some o found show ?thesis by simp
        next
          case True
          show ?thesis
          proof (cases "process_workspace_symbols w found")
            case None
            with 2 Cons g Some o found True show ?thesis by simp
          next
            case ps: (Some ps)
            then have "list_all symbol_entry ps" by (rule process_workspace_symbols_entries)
            with "2.prems" have "list_all symbol_entry (results @ ps)" by simp
            moreover have "find_symbol_loop w s rest (results @ ps) st2 = Some (rs, st')"
              using "2.prems"(1) Cons g Some o found True ps by simp
            ultimately show ?thesis
              using "2.IH"(4) [OF Cons g [symmetric] Some _ _ found True ps] o by simp
          qed
        qed
      qed
    qed
  qed
qed

lemma example_find_symbol:
  "map_option fst (find_symbol example_world (str ''foo'') initial_service) =
     Some (JDict [(str ''results'',
       JList [JDict [(str ''name'', JStr (str ''foo'')), (str ''kind'', JStr (str ''function'')),
                     (str ''file'', JStr (str ''a.py'')), (str ''line'', JInt 1)]])])"
  by (simp add: aggregator_eval service_eval startswith_def str_def Let_def)


text \<open>
  Claim C5, as stated, fails for two of the four operations. The entries of \<open>find_symbol\<close>
  carry a name, a kind, a file and a line, and neither the key \<open>symbol\<close> nor a column
  nor context lines; and \<open>get_symbol_context\<close> returns a dict with the keys \<open>file\<close>,
  \<open>line\<close> and \<open>context\<close>, which has neither the key \<open>results\<close> nor the key \<open>error\<close>.
\<close>

theorem public_operations_shape_counterexample:
  "map_option fst (find_symbol example_world (str ''foo'') initial_service) =
     Some (JDict [(str ''results'',
       JList [JDict [(str ''name'', JStr (str ''foo'')), (str ''kind'', JStr (str ''function'')),
                     (str ''file'', JStr (str ''a.py'')), (str ''line'', JInt 1)]])]) \<and>
   subscript (JDict [(str ''name'', JStr (str ''foo'')), (str ''kind'', JStr (str ''function'')),
                     (str ''file'', JStr (str ''a.py'')), (str ''line'', JInt 1)]) (str ''symbol'') = None \<and>
   subscript (JDict [(str ''name'', JStr (str ''foo'')), (str ''kind'', JStr (str ''function'')),
                     (str ''file'', JStr (str ''a.py'')), (str ''line'', JInt 1)]) (str ''column'') = None \<and>
   subscript (JDict [(str ''name'', JStr (str ''foo'')), (str ''kind'', JStr (str ''function'')),
                     (str ''file'', JStr (str ''a.py'')), (str ''line'', JInt 1)]) (str ''context'') = None \<and>
   api_get_symbol_context example_world (str ''/w/a.py'') 5 =
     Some (JDict [(str ''file'', JStr (str ''/w/a.py'')), (str ''line'', JInt 5),
                  (str ''context'', JList [JStr (str ''Line 5 is out of range'')])]) \<and>
   subscript (JDict [(str ''file'', JStr (str ''/w/a.py'')), (str ''line'', JInt 5),
                  (str ''context'', JList [JStr (str ''Line 5 is out of range'')])]) (str ''results'') = None \<and>
   subscript (JDict [(str ''file'', JStr (str ''/w/a.py'')), (str ''line'', JInt 5),
                  (str ''context'', JList [JStr (str ''Line 5 is out of range'')])]) (str ''error'') = None"
  by (simp add: aggregator_eval service_eval api_get_symbol_context_def context_json_def context_eval
      str_def Let_def)

text \<open>
  Claim C5, amended. \<open>goto_definition\<close> and \<open>goto_references\<close> return either an error
  dict or a results dict with a non-empty list, never both, and every entry of the list is
  an entry that \<open>_process_locations\<close> builds for a location. Such an entry is a dict with
  the keys \<open>symbol\<close> (the name asked for), \<open>file\<close>, \<open>line\<close> and \<open>column\<close> (each the
  zero-based start value of the location plus one) and \<open>context\<close> (a list of strings).
  \<open>find_symbol\<close>, when it returns, returns either an error dict or a results dict, never
  both, and every entry is a dict with the keys \<open>name\<close>, \<open>kind\<close>, \<open>file\<close> and \<open>line\<close>.
  \<open>get_symbol_context\<close> raises exactly when the resolution of its path raises, and
  otherwise returns a dict with the keys \<open>file\<close>, \<open>line\<close> and \<open>context\<close>.
\<close>

theorem public_operations_shape:
  "(error_value (fst (goto_definition w s st)) \<or>
      results_value (location_entry w s) (fst (goto_definition w s st))) \<and>
   \<not> (error_value (fst (goto_definition w s st)) \<and>
      results_value (location_entry w s) (fst (goto_definition w s st))) \<and>
   (error_value (fst (goto_references w s st)) \<or>
      results_value (location_entry w s) (fst (goto_references w s st))) \<and>
   \<not> (error_value (fst (goto_references w s st)) \<and>
      results_value (location_entry w s) (fst (goto_references w s st))) \<and>
   (\<forall>location e. process_location w s location = Some (Some e) \<longrightarrow> entry_for s location e) \<and>
   (\<forall>r st'. find_symbol w s st = Some (r, st') \<longrightarrow>
      (error_value r \<or> results_value symbol_entry r) \<and>
      \<not> (error_value r \<and> results_value symbol_entry r)) \<and>
   (api_get_symbol_context w file_path line = None \<longleftrightarrow>
      resolve (filesystem w) file_path = None) \<and>
   (\<forall>r. api_get_symbol_context w file_path line = Some r \<longrightarrow>
      (\<exists>abs_path context.
         r = JDict [(str ''file'', JStr abs_path), (str ''line'', JInt line),
                    (str ''context'', JList (map JStr context))]))"
proof -
  have fs: "error_value r \<or> results_value symbol_entry r" if "find_symbol w s st = Some (r, st')" for r st'
  proof -
    from that obtain rs where l: "find_symbol_loop w s (file_index w) [] st = Some (rs, st')"
      and r: "r = (if rs = [] then JDict [(str ''error'', JStr (str ''No symbols found for '' @ [39] @ s @ [39]))]
                   else JDict [(str ''results'', JList rs)])"
      by (auto simp: find_symbol_def split: option.splits if_splits)
    from find_symbol_loop_entries [OF l] have "list_all symbol_entry rs" by simp
    with r show ?thesis by (auto simp: error_value_def results_value_def)
  qed
  have raise: "api_get_symbol_context w file_path line = None \<longleftrightarrow>
      resolve (filesystem w) file_path = None"
    by (simp add: api_get_symbol_context_def get_symbol_context_def split: option.splits sum.splits)
  have ctx: "\<exists>abs_path context.
         r = JDict [(str ''file'', JStr abs_path), (str ''line'', JInt line),
                    (str ''context'', JList (map JStr context))]"
    if "api_get_symbol_context w file_path line = Some r" for r
  proof -
    from that obtain c where c: "get_symbol_context (filesystem w) file_path line = Some c"
      "r = context_json c"
      by (auto simp: api_get_symbol_context_def)
    from c(1) have "ctx_line c = line"
      by (auto simp: get_symbol_context_def split: option.splits sum.splits)
    with c(2) have "r = JDict [(str ''file'', JStr (ctx_file c)), (str ''line'', JInt line),
                    (str ''context'', JList (map JStr (ctx_context c)))]"
      by (simp add: context_json_def)
    then show ?thesis by blast
  qed
  show ?thesis
    using goto_definition_shape [of w s st] goto_references_shape [of w s st] fs raise ctx
      error_not_results process_location_entry
    by blast
qed

theorem public_operations_shape_witness:
  "results_value symbol_entry
     (JDict [(str ''results'',
       JList [JDict [(str ''name'', JStr (str ''foo'')), (str ''kind'', JStr (str ''function'')),
                     (str ''file'', JStr (str ''a.py'')), (str ''line'', JInt 1)]])]) \<and>
   results_value (location_entry example_world (str ''foo''))
     (fst (goto_definition example_world (str ''foo'') initial_service)) \<and>
   \<not> error_value (fst (goto_definition example_world (str ''foo'') initial_service)) \<and>
   entry_for (str ''foo'') (example_location 0 4)
     (JDict [(str ''symbol'', JStr (str ''foo'')), (str ''file'', JStr (str ''a.py'')),
             (str ''line'', JInt 1), (str ''column'', JInt 5),
             (str ''context'', JList [JStr ([8594, 32] @ str ''1: def foo():''),
                                      JStr (str ''  2:     pass'')])]) \<and>
   zero_based (example_location 0 4) (str ''range'') = Some (0, 4)"
proof -
  obtain st' where f: "find_symbol example_world (str ''foo'') initial_service =
     Some (JDict [(str ''results'',
       JList [JDict [(str ''name'', JStr (str ''foo'')), (str ''kind'', JStr (str ''function'')),
                     (str ''file'', JStr (str ''a.py'')), (str ''line'', JInt 1)]])], st')"
    using example_find_symbol by (cases "find_symbol example_world (str ''foo'') initial_service") auto
  have ne: "\<not> error_value (JDict [(str ''results'', v)])" for v
    by (simp add: error_value_def str_def)
  have z: "zero_based (example_location 0 4) (str ''range'') = Some (0, 4)"
    by (simp add: zero_based_def example_location_def str_def)
  have pl: "process_location example_world (str ''foo'') (example_location 0 4) =
     Some (Some (JDict [(str ''symbol'', JStr (str ''foo'')), (str ''file'', JStr (str ''a.py'')),
             (str ''line'', JInt 1), (str ''column'', JInt 5),
             (str ''context'', JList [JStr ([8594, 32] @ str ''1: def foo():''),
                                      JStr (str ''  2:     pass'')])]))"
    by (simp add: aggregator_eval service_eval context_eval str_def Let_def)
  from public_operations_shape [of example_world "str ''foo''" initial_service "str ''/w/a.py''" 5] f ne z pl
  show ?thesis unfolding example_goto_definition by blast
qed


section \<open>Properties of the pool and the set of open documents\<close>

subsection \<open>What the operations announce\<close>





lemma announced_process_update [simp]:
  "announced (srv\<lparr>process := p\<rparr>) = announced srv"
  "announced (srv\<lparr>is_initialized := b\<rparr>) = announced srv"
  "announced (srv\<lparr>capabilities := c\<rparr>) = announced srv"
  by (simp_all add: announced_def)

lemma is_running_send_request: "is_running (snd (send_request w method params srv)) = is_running srv"
  by (simp add: send_request_def send_message_def is_running_def Let_def split_beta)












lemma on_server_docs [simp]:
  "open_documents (snd (on_server ext call dflt st)) = open_documents st"
  by (simp add: on_server_def split_beta Let_def split: option.splits)

























end
